theory Spec2Isabelle
  imports Complex_Main
begin

section \<open>Data model of SimulationUtilities.h\<close>

text \<open>
  Modelled from the spec: a \<open>TimeSeriesTable\<close> (TimeSeriesTable.h is missing) is an
  ordered list of column labels and an ordered list of rows, each row a time with its
  values. Values are doubles that \<open>analyze\<close> only copies, and the one constant it
  writes is \<open>0.0\<close>; they are carried as \<open>real\<close>.
\<close>

record table =
  columnLabels :: "string list"
  tableRows :: "(real \<times> real list) list"

definition getNumRows :: "table \<Rightarrow> nat" where
  "getNumRows t = length (tableRows t)"

definition getNumColumns :: "table \<Rightarrow> nat" where
  "getNumColumns t = length (columnLabels t)"

text \<open>Every exception \<open>analyze\<close> can raise, as a value.\<close>

datatype error =
    RegexError string
  | StatesTableError
  | ActuatorOrderError
  | StatesControlsRowCountMismatch nat nat
  | DiscreteRowCountMismatch nat nat
  | ComponentNotFound string
  | MapKeyOutOfRange string
  | VectorIndexOutOfRange nat nat
  | TableIndexOutOfRange nat
  | KeyNotFound string

definition getRowAtIndex :: "table \<Rightarrow> nat \<Rightarrow> error + real list" where
  "getRowAtIndex t i =
     (if i < length (tableRows t) then Inr (snd (tableRows t ! i))
      else Inl (TableIndexOutOfRange i))"

subsection \<open>Writing one controls row into the controls vector\<close>

text \<open>
  The inner loop of \<open>analyze\<close>:
  \<^verbatim>\<open>for (icontrol = 0; icontrol < controlNames.size(); ++icontrol)
    controls[controlMap.at(controlNames[icontrol])] = controlsRow[icontrol];\<close>
  The right-hand side is read first, \<open>unordered_map::at\<close> throws \<open>std::out_of_range\<close>
  on a missing key, and an index past the end of the \<open>SimTK::Vector\<close> is an
  index-range failure.
\<close>

function setControlValues ::
  "(string \<rightharpoonup> nat) \<Rightarrow> string list \<Rightarrow> real list \<Rightarrow> nat \<Rightarrow> real list \<Rightarrow> error + real list"
where
  "setControlValues controlMap controlNames controlsRow icontrol controls =
     (if icontrol < length controlNames then
        (if icontrol < length controlsRow then
           (case controlMap (controlNames ! icontrol) of
              None \<Rightarrow> Inl (MapKeyOutOfRange (controlNames ! icontrol))
            | Some idx \<Rightarrow>
                if idx < length controls then
                  setControlValues controlMap controlNames controlsRow (Suc icontrol)
                    (controls[idx := controlsRow ! icontrol])
                else Inl (VectorIndexOutOfRange idx (length controls)))
         else Inl (TableIndexOutOfRange icontrol))
      else Inr controls)"
  by pat_completeness auto
termination
  by (relation "measure (\<lambda>(m, ns, r, i, c). length ns - i)") auto

declare setControlValues.simps [simp del]


subsection \<open>System state, model and report sink\<close>

text \<open>
  Modelled from the spec: the part of a \<open>SimTK::State\<close> (Simbody is missing) that
  \<open>analyze\<close> reads or writes: its time, the
  continuous state by label, whether \<open>prescribe\<close> has been applied, the stage it is
  realized through, the controls vector and the discrete variables written into it.
\<close>

datatype stage = StageInstance | StageVelocity | StageReport

record sysstate =
  stateTime :: real
  stateY :: "(string \<times> real) list"
  prescribed :: bool
  realizedStage :: stage
  stateControls :: "real list"
  stateDiscrete :: "((string \<times> string) \<times> real) list"

text \<open>
  Modelled from the spec: a component of the model (Model.h and Component.h are missing)
  with the outputs it exposes (name and value-type name), an actuator with the slots of
  \<open>Model::getControls()\<close> that hold its controls, and the model with its components in
  the order of \<open>getComponentList()\<close>, its actuators in declared order, the slots of Y
  and the value of each output in a state.
\<close>

record component =
  componentPath :: string
  componentOutputs :: "(string \<times> string) list"

record actuator =
  actuatorPath :: string
  controlSlots :: "nat list"

record model =
  components :: "component list"
  actuators :: "actuator list"
  ySlots :: "string option list"
  outputValue :: "string \<Rightarrow> sysstate \<Rightarrow> real"

text \<open>
  Modelled from the spec: \<open>Output::getPathName\<close> (missing) is the owner's absolute
  path, a bar, and the output's name.
\<close>

definition getPathName :: "component \<Rightarrow> string \<Rightarrow> string" where
  "getPathName cmpt outputName = componentPath cmpt @ ''|'' @ outputName"

text \<open>What \<open>analyze\<close> does to the model, the log, the states and the reporter, in order.\<close>

datatype event =
    InitSystem
  | LogDebug string string
  | LogWarn string string
  | AddToReport string
  | AddComponentReporter
  | GetState nat
  | Prescribe nat
  | RealizeVelocity nat
  | SetControls nat "real list"
  | SetDiscreteVariableValue nat string string real
  | RealizeReport nat

text \<open>
  \<open>std::regex\<close> is a parameter: \<open>rx p\<close> is \<open>None\<close> when constructing
  \<open>std::regex(p)\<close> throws, and otherwise the predicate \<open>std::regex_match(_, std::regex(p))\<close>,
  which holds when the whole string matches \<open>p\<close>.
\<close>

type_synonym regex = "string \<Rightarrow> (string \<Rightarrow> bool) option"

subsection \<open>Collecting the outputs\<close>

text \<open>The loop over \<open>outputPaths\<close> for one output of type \<open>typeName\<close>; \<open>T\<close> is the template type.\<close>

fun matchOutputPaths ::
  "regex \<Rightarrow> string \<Rightarrow> string \<Rightarrow> string \<Rightarrow> string list \<Rightarrow> event list \<times> error option"
where
  "matchOutputPaths rx T thisOutputPath typeName [] = ([], None)"
| "matchOutputPaths rx T thisOutputPath typeName (outputPathArg # rest) =
     (case rx outputPathArg of
        None \<Rightarrow> ([], Some (RegexError outputPathArg))
      | Some regex_match \<Rightarrow>
          (let (tr, r) = matchOutputPaths rx T thisOutputPath typeName rest in
           if regex_match thisOutputPath then
             (if typeName = T then
                (LogDebug thisOutputPath typeName # AddToReport thisOutputPath # tr, r)
              else (LogWarn thisOutputPath typeName # tr, r))
           else (tr, r)))"

text \<open>The loop over the output names of one component.\<close>

fun scanOutputs ::
  "regex \<Rightarrow> string \<Rightarrow> string list \<Rightarrow> component \<Rightarrow> (string \<times> string) list
   \<Rightarrow> event list \<times> error option"
where
  "scanOutputs rx T outputPaths cmpt [] = ([], None)"
| "scanOutputs rx T outputPaths cmpt ((outputName, typeName) # rest) =
     (case matchOutputPaths rx T (getPathName cmpt outputName) typeName outputPaths of
        (tr, Some e) \<Rightarrow> (tr, Some e)
      | (tr, None) \<Rightarrow>
          (let (tr', r) = scanOutputs rx T outputPaths cmpt rest in (tr @ tr', r)))"

text \<open>The loop over \<open>model.getComponentList()\<close>.\<close>

fun scanComponents ::
  "regex \<Rightarrow> string \<Rightarrow> string list \<Rightarrow> component list \<Rightarrow> event list \<times> error option"
where
  "scanComponents rx T outputPaths [] = ([], None)"
| "scanComponents rx T outputPaths (cmpt # rest) =
     (case scanOutputs rx T outputPaths cmpt (componentOutputs cmpt) of
        (tr, Some e) \<Rightarrow> (tr, Some e)
      | (tr, None) \<Rightarrow>
          (let (tr', r) = scanComponents rx T outputPaths rest in (tr @ tr', r)))"

text \<open>The outputs a trace has registered with the reporter, in registration order.\<close>

fun registered :: "event list \<Rightarrow> string list" where
  "registered [] = []"
| "registered (AddToReport p # tr) = p # registered tr"
| "registered (_ # tr) = registered tr"


subsection \<open>Label to slot maps\<close>

text \<open>
  \<open>createSystemControlIndexMap\<close>, \<open>checkOrderSystemControls\<close>,
  \<open>createStateVariableNamesInSystemOrder\<close> and \<open>createSystemYIndexMap\<close> are only
  declared in the header; their definitions below follow the declarations' documentation
  and the specification.
\<close>

text \<open>
  Modelled from the spec: the decimal digits of a zero-based control index (the
  formatting of control names is missing).
\<close>

fun showNat :: "nat \<Rightarrow> string" where
  "showNat n =
     (if n < 10 then [char_of (48 + n)]
      else showNat (n div 10) @ [char_of (48 + n mod 10)])"

declare showNat.simps [simp del]

text \<open>
  Modelled from the spec: the name of control \<open>j\<close> of an actuator with \<open>nc\<close> controls
  (the body of \<open>createControlNamesFromModel\<close> is missing): the actuator's name when it
  has one control, and the name suffixed with the zero-based control index otherwise.
\<close>

definition controlName :: "string \<Rightarrow> nat \<Rightarrow> nat \<Rightarrow> string" where
  "controlName actuPath nc j =
     (if nc = 1 then actuPath else actuPath @ ''_'' @ showNat j)"

text \<open>
  Modelled from the spec: the controls of one actuator (the body of
  \<open>createSystemControlIndexMap\<close> is missing). \<open>i\<close> counts the controls seen so far in
  actuator order; control \<open>j\<close> of the actuator has to sit in slot \<open>i\<close> of the flat
  controls vector, and any mismatch is the internal error.
\<close>

fun indexActuatorControls ::
  "string \<Rightarrow> nat \<Rightarrow> nat list \<Rightarrow> nat \<Rightarrow> nat \<Rightarrow> (string \<rightharpoonup> nat)
   \<Rightarrow> error + (nat \<times> (string \<rightharpoonup> nat))"
where
  "indexActuatorControls actuPath nc [] j i controlIndices = Inr (i, controlIndices)"
| "indexActuatorControls actuPath nc (slot # slots) j i controlIndices =
     (if slot \<noteq> i then Inl ActuatorOrderError
      else indexActuatorControls actuPath nc slots (Suc j) (Suc i)
             (controlIndices(controlName actuPath nc j \<mapsto> i)))"

text \<open>
  Modelled from the spec: the loop over the actuators in model-declared order (the body
  of \<open>createSystemControlIndexMap\<close> is missing).
\<close>

fun indexActuators ::
  "actuator list \<Rightarrow> nat \<Rightarrow> (string \<rightharpoonup> nat) \<Rightarrow> error + (string \<rightharpoonup> nat)"
where
  "indexActuators [] i controlIndices = Inr controlIndices"
| "indexActuators (actu # rest) i controlIndices =
     (case indexActuatorControls (actuatorPath actu) (length (controlSlots actu))
             (controlSlots actu) 0 i controlIndices of
        Inl e \<Rightarrow> Inl e
      | Inr (i', controlIndices') \<Rightarrow> indexActuators rest i' controlIndices')"

text \<open>
  Modelled from the spec: \<open>createSystemControlIndexMap\<close> (body missing), the index of
  each control in \<open>Model::getControls()\<close> by control name; it throws when the order of
  the actuators is not the order of the controls.
\<close>

definition createSystemControlIndexMap :: "model \<Rightarrow> error + (string \<rightharpoonup> nat)" where
  "createSystemControlIndexMap m = indexActuators (actuators m) 0 Map.empty"

text \<open>
  Modelled from the spec: \<open>checkOrderSystemControls\<close> (body missing) throws under the
  same condition and returns nothing.
\<close>

definition checkOrderSystemControls :: "model \<Rightarrow> error option" where
  "checkOrderSystemControls m =
     (case createSystemControlIndexMap m of Inl e \<Rightarrow> Some e | Inr _ \<Rightarrow> None)"

text \<open>
  The specification's words for the condition: iterating the actuators in model-declared
  order and iterating the flat controls vector give the same sequence of controls.
\<close>

definition actuatorOrderMatches :: "model \<Rightarrow> bool" where
  "actuatorOrderMatches m =
     (concat (map controlSlots (actuators m))
        = [0 ..< length (concat (map controlSlots (actuators m)))])"







subsection \<open>States trajectory and discrete variables\<close>

text \<open>
  Modelled from the spec: \<open>StatesTrajectory::createFromStatesTable\<close> (declared in
  StatesTrajectory.h, which is missing) produces, for each row of the states table in
  row order, a state whose continuous state matches that row by label.
\<close>

definition createFromStatesTable :: "model \<Rightarrow> table \<Rightarrow> sysstate list" where
  "createFromStatesTable m statesTable =
     map (\<lambda>(t, vals).
            \<lparr>stateTime = t, stateY = zip (columnLabels statesTable) vals,
             prescribed = False, realizedStage = StageInstance,
             stateControls = [], stateDiscrete = []\<rparr>)
         (tableRows statesTable)"

text \<open>
  Modelled from the spec: \<open>ComponentPath\<close> (missing) splits a label: the last path
  segment is the variable name, the remainder is the path of the owning component.
\<close>

definition getComponentName :: "string \<Rightarrow> string" where
  "getComponentName label = rev (takeWhile (\<lambda>c. c \<noteq> CHR ''/'') (rev label))"

text \<open>
  Modelled from the spec: \<open>ComponentPath::getParentPathString\<close> (missing), the label
  without its last segment and the separator before it.
\<close>

definition getParentPathString :: "string \<Rightarrow> string" where
  "getParentPathString label = rev (drop 1 (dropWhile (\<lambda>c. c \<noteq> CHR ''/'') (rev label)))"

text \<open>
  Modelled from the spec: \<open>Model::getComponent\<close> (missing) resolves a path to the
  component of that path, and fails on a path that names none.
\<close>

definition getComponent :: "model \<Rightarrow> string \<Rightarrow> error + component" where
  "getComponent m path =
     (case find (\<lambda>c. componentPath c = path) (components m) of
        None \<Rightarrow> Inl (ComponentNotFound path)
      | Some c \<Rightarrow> Inr c)"

text \<open>The loop of \<open>analyze\<close> that fills \<open>discreteComponentRefs\<close>, one entry for each label.\<close>

fun resolveDiscreteComponents ::
  "model \<Rightarrow> string list \<Rightarrow> error + (string \<times> component) list"
where
  "resolveDiscreteComponents m [] = Inr []"
| "resolveDiscreteComponents m (label # rest) =
     (case getComponent m (getParentPathString label) of
        Inl e \<Rightarrow> Inl e
      | Inr c \<Rightarrow>
          (case resolveDiscreteComponents m rest of
             Inl e \<Rightarrow> Inl e
           | Inr refs \<Rightarrow> Inr ((getComponentName label, c) # refs)))"

text \<open>
  Modelled from the spec: columns are found by label (TimeSeriesTable.h is missing);
  the index of the first column with the label.
\<close>

fun indexOfLabel :: "string list \<Rightarrow> string \<Rightarrow> nat option" where
  "indexOfLabel [] label = None"
| "indexOfLabel (l # ls) label =
     (if l = label then Some 0 else map_option Suc (indexOfLabel ls label))"

text \<open>
  Modelled from the spec: \<open>table.getDependentColumn(label)[itime]\<close>
  (TimeSeriesTable.h is missing), the value of the column with the label at row
  \<open>itime\<close>, and a failure for a label or a row the table does not have.
\<close>

definition getDependentColumnAt :: "table \<Rightarrow> string \<Rightarrow> nat \<Rightarrow> error + real" where
  "getDependentColumnAt t label itime =
     (case indexOfLabel (columnLabels t) label of
        None \<Rightarrow> Inl (KeyNotFound label)
      | Some icol \<Rightarrow>
          if itime < length (tableRows t) \<and> icol < length (snd (tableRows t ! itime))
          then Inr (snd (tableRows t ! itime) ! icol)
          else Inl (TableIndexOutOfRange itime))"

subsection \<open>What the model and the reporter do to a state\<close>

text \<open>
  The operations of the dynamics engine and of the model on a state are not in the
  header; each is modelled as far as \<open>analyze\<close> depends on it.
\<close>

text \<open>
  Modelled from the spec: \<open>System::prescribe\<close> (Simbody is missing) enforces the
  prescribed motions of the model on the state.
\<close>

definition prescribe :: "sysstate \<Rightarrow> sysstate" where
  "prescribe s = s\<lparr>prescribed := True\<rparr>"

text \<open>
  Modelled from the spec: \<open>Model::realizeVelocity\<close> (missing) advances the realization
  of the state to the velocity stage.
\<close>

definition realizeVelocity :: "sysstate \<Rightarrow> sysstate" where
  "realizeVelocity s = s\<lparr>realizedStage := StageVelocity\<rparr>"

text \<open>
  Modelled from the spec: \<open>Model::setControls\<close> (missing) stores the controls vector
  it is given in the state.
\<close>

definition setControls :: "sysstate \<Rightarrow> real list \<Rightarrow> sysstate" where
  "setControls s controls = s\<lparr>stateControls := controls\<rparr>"

text \<open>
  Modelled from the spec: \<open>Component::setDiscreteVariableValue\<close> (missing) writes the
  value of one discrete variable of a component into the state.
\<close>

definition setDiscreteVariableValue ::
  "sysstate \<Rightarrow> component \<Rightarrow> string \<Rightarrow> real \<Rightarrow> sysstate" where
  "setDiscreteVariableValue s c name v =
     s\<lparr>stateDiscrete := ((componentPath c, name), v) # stateDiscrete s\<rparr>"

text \<open>
  Modelled from the spec: \<open>Model::realizeReport\<close> (missing) advances the state to
  the report stage, at which the reporter (Reporter.h is missing) appends one row, the state's time with the value of every registered output in
  registration order.
\<close>

definition realizeReport ::
  "model \<Rightarrow> string list \<Rightarrow> sysstate \<Rightarrow> (real \<times> real list) list
   \<Rightarrow> sysstate \<times> (real \<times> real list) list" where
  "realizeReport m reported s reportRows =
     (let s' = s\<lparr>realizedStage := StageReport\<rparr>
      in (s', reportRows @ [(stateTime s', map (\<lambda>p. outputValue m p s') reported)]))"


subsection \<open>The replay loop\<close>

text \<open>
  The loop of one sample over the columns of the discrete-variables table: the value
  is read from the table at \<open>itime\<close> and written into the state through the component
  resolved for column \<open>idv\<close>.
\<close>

function setDiscreteVariables ::
  "table \<Rightarrow> (string \<times> component) list \<Rightarrow> nat \<Rightarrow> nat \<Rightarrow> sysstate
   \<Rightarrow> event list \<times> (error + sysstate)"
where
  "setDiscreteVariables dvt refs itime idv state =
     (if idv < length (columnLabels dvt) then
        (case getDependentColumnAt dvt (columnLabels dvt ! idv) itime of
           Inl e \<Rightarrow> ([], Inl e)
         | Inr v \<Rightarrow>
             if idv < length refs then
               (case setDiscreteVariables dvt refs itime (Suc idv)
                       (setDiscreteVariableValue state (snd (refs ! idv)) (fst (refs ! idv)) v) of
                  (tr, r) \<Rightarrow>
                    (SetDiscreteVariableValue itime (componentPath (snd (refs ! idv)))
                       (fst (refs ! idv)) v # tr, r))
             else ([], Inl (VectorIndexOutOfRange idv (length refs))))
      else ([], Inr state))"
  by pat_completeness auto
termination
  by (relation "measure (\<lambda>(dvt, refs, itime, idv, state). length (columnLabels dvt) - idv)") auto

declare setDiscreteVariables.simps [simp del]

text \<open>
  The body of the loop over the states trajectory, for sample \<open>itime\<close> with state
  \<open>state0 = statesTraj[itime]\<close>. The controls vector is declared outside the loop, so
  it comes in and goes out. The result is the trace of the sample and either the error
  that stopped it or the controls vector, the reported state and the reporter's rows.
\<close>

definition sampleStep ::
  "model \<Rightarrow> table \<Rightarrow> (string \<rightharpoonup> nat) \<Rightarrow> table \<Rightarrow> (string \<times> component) list \<Rightarrow> string list
   \<Rightarrow> nat \<Rightarrow> sysstate \<Rightarrow> real list \<Rightarrow> (real \<times> real list) list
   \<Rightarrow> event list \<times> (error + (real list \<times> sysstate \<times> (real \<times> real list) list))"
where
  "sampleStep m controlsTable controlMap dvt refs reported itime state0 controls reportRows =
     (let state1 = prescribe state0 in
      case getRowAtIndex controlsTable itime of
        Inl e \<Rightarrow> ([GetState itime, Prescribe itime], Inl e)
      | Inr controlsRow \<Rightarrow>
          (case setControlValues controlMap (columnLabels controlsTable) controlsRow 0 controls of
             Inl e \<Rightarrow> ([GetState itime, Prescribe itime], Inl e)
           | Inr controls' \<Rightarrow>
               (let state2 = setControls (realizeVelocity state1) controls' in
                case (if getNumColumns dvt \<noteq> 0 then setDiscreteVariables dvt refs itime 0 state2
                      else ([], Inr state2)) of
                  (tr, Inl e) \<Rightarrow>
                    ([GetState itime, Prescribe itime, RealizeVelocity itime,
                      SetControls itime controls'] @ tr, Inl e)
                | (tr, Inr state3) \<Rightarrow>
                    (case realizeReport m reported state3 reportRows of
                       (state4, reportRows') \<Rightarrow>
                         ([GetState itime, Prescribe itime, RealizeVelocity itime,
                           SetControls itime controls'] @ tr @ [RealizeReport itime],
                          Inr (controls', state4, reportRows'))))))"

text \<open>The loop over the states trajectory, from sample \<open>itime\<close> on.\<close>

fun replay ::
  "model \<Rightarrow> table \<Rightarrow> (string \<rightharpoonup> nat) \<Rightarrow> table \<Rightarrow> (string \<times> component) list \<Rightarrow> string list
   \<Rightarrow> nat \<Rightarrow> sysstate list \<Rightarrow> real list \<Rightarrow> (real \<times> real list) list
   \<Rightarrow> event list \<times> (error + (real \<times> real list) list)"
where
  "replay m controlsTable controlMap dvt refs reported itime [] controls reportRows =
     ([], Inr reportRows)"
| "replay m controlsTable controlMap dvt refs reported itime (state0 # rest) controls reportRows =
     (case sampleStep m controlsTable controlMap dvt refs reported itime state0 controls
             reportRows of
        (tr, Inl e) \<Rightarrow> (tr, Inl e)
      | (tr, Inr (controls', state4, reportRows')) \<Rightarrow>
          (case replay m controlsTable controlMap dvt refs reported (Suc itime) rest controls'
                  reportRows' of
             (tr', r) \<Rightarrow> (tr @ tr', r)))"

subsection \<open>analyze\<close>

text \<open>
  The checks of the discrete-variables table and the resolution of its components,
  done when the table has columns.
\<close>

definition discreteSetup ::
  "model \<Rightarrow> table \<Rightarrow> table \<Rightarrow> error + (string \<times> component) list" where
  "discreteSetup m statesTable dvt =
     (if getNumColumns dvt \<noteq> 0 then
        (if getNumRows dvt \<noteq> getNumRows statesTable
         then Inl (DiscreteRowCountMismatch (getNumRows dvt) (getNumRows statesTable))
         else resolveDiscreteComponents m (columnLabels dvt))
      else Inr [])"

text \<open>
  What follows the collection of the outputs: the reporter is added and the system
  initialized again, the states trajectory and the control index map are built (the
  reporter adds no actuator and no state variable to \<open>m\<close>), the controls vector is
  allocated with one slot for each column of the controls table, the row counts are
  checked and the samples replayed.
\<close>

definition analyzeFrom ::
  "model \<Rightarrow> table \<Rightarrow> table \<Rightarrow> table \<Rightarrow> string list
   \<Rightarrow> event list \<times> (error + table)" where
  "analyzeFrom m statesTable controlsTable dvt reported =
     (let statesTraj = createFromStatesTable m statesTable in
      case createSystemControlIndexMap m of
        Inl e \<Rightarrow> ([AddComponentReporter, InitSystem], Inl e)
      | Inr controlMap \<Rightarrow>
          (let controls = replicate (getNumColumns controlsTable) (0::real) in
           if getNumRows statesTable \<noteq> getNumRows controlsTable then
             ([AddComponentReporter, InitSystem],
              Inl (StatesControlsRowCountMismatch (getNumRows statesTable)
                     (getNumRows controlsTable)))
           else
             (case discreteSetup m statesTable dvt of
                Inl e \<Rightarrow> ([AddComponentReporter, InitSystem], Inl e)
              | Inr refs \<Rightarrow>
                  (case replay m controlsTable controlMap dvt refs reported 0 statesTraj
                          controls [] of
                     (tr, Inl e) \<Rightarrow> ([AddComponentReporter, InitSystem] @ tr, Inl e)
                   | (tr, Inr reportRows) \<Rightarrow>
                       ([AddComponentReporter, InitSystem] @ tr,
                        Inr \<lparr>columnLabels = reported, tableRows = reportRows\<rparr>)))))"

text \<open>
  \<open>analyze<T>\<close> with its trace. \<open>T\<close> is the name of the template's value type,
  \<open>dvt\<close> the discrete-variables table (without columns when the argument is left out).
\<close>

definition analyzeTrace ::
  "regex \<Rightarrow> string \<Rightarrow> model \<Rightarrow> table \<Rightarrow> table \<Rightarrow> string list \<Rightarrow> table
   \<Rightarrow> event list \<times> (error + table)" where
  "analyzeTrace rx T m statesTable controlsTable outputPaths dvt =
     (case scanComponents rx T outputPaths (components m) of
        (tr, Some e) \<Rightarrow> (InitSystem # tr, Inl e)
      | (tr, None) \<Rightarrow>
          (case analyzeFrom m statesTable controlsTable dvt (registered tr) of
             (tr', r) \<Rightarrow> (InitSystem # tr @ tr', r)))"

definition analyze ::
  "regex \<Rightarrow> string \<Rightarrow> model \<Rightarrow> table \<Rightarrow> table \<Rightarrow> string list \<Rightarrow> table \<Rightarrow> error + table" where
  "analyze rx T m statesTable controlsTable outputPaths dvt =
     snd (analyzeTrace rx T m statesTable controlsTable outputPaths dvt)"


subsection \<open>Reading a trace\<close>

text \<open>The warnings a trace has logged, as output path and type name, in order.\<close>

fun warnings :: "event list \<Rightarrow> (string \<times> string) list" where
  "warnings [] = []"
| "warnings (LogWarn p ty # tr) = (p, ty) # warnings tr"
| "warnings (_ # tr) = warnings tr"

text \<open>The events of the replay loop.\<close>

fun sampleEvent :: "event \<Rightarrow> bool" where
  "sampleEvent (GetState i) = True"
| "sampleEvent (Prescribe i) = True"
| "sampleEvent (RealizeVelocity i) = True"
| "sampleEvent (SetControls i v) = True"
| "sampleEvent (SetDiscreteVariableValue i c n v) = True"
| "sampleEvent (RealizeReport i) = True"
| "sampleEvent _ = False"

text \<open>
  The order of the operations on sample \<open>i\<close> as the specification gives it: the state
  is reconstructed, the prescribed motions are enforced, the state is realized to the
  velocity stage, the controls are written, the discrete variables are written, and the
  state is realized to the report stage.
\<close>

definition sampleTrace :: "nat \<Rightarrow> real list \<Rightarrow> (string \<times> string \<times> real) list \<Rightarrow> event list" where
  "sampleTrace i controls dvs =
     [GetState i, Prescribe i, RealizeVelocity i, SetControls i controls]
     @ map (\<lambda>(c, n, v). SetDiscreteVariableValue i c n v) dvs
     @ [RealizeReport i]"

text \<open>
  The discrete variables written at sample \<open>itime\<close>, as the specification has them:
  for every column of the discrete-variables table, in column order, the path of the
  owning component, the name of the variable and the value of the column at the sample.
  \<open>discreteWrites\<close> takes component and name from the resolved references,
  \<open>discreteInjections\<close> from the column label.
\<close>

definition columnValue :: "table \<Rightarrow> string \<Rightarrow> nat \<Rightarrow> real" where
  "columnValue t label itime =
     (case getDependentColumnAt t label itime of Inr v \<Rightarrow> v | Inl e \<Rightarrow> 0)"

definition discreteWrites ::
  "table \<Rightarrow> (string \<times> component) list \<Rightarrow> nat \<Rightarrow> (string \<times> string \<times> real) list" where
  "discreteWrites dvt refs itime =
     map (\<lambda>idv. (componentPath (snd (refs ! idv)), fst (refs ! idv),
                  columnValue dvt (columnLabels dvt ! idv) itime))
         [0 ..< getNumColumns dvt]"

definition discreteInjections :: "table \<Rightarrow> nat \<Rightarrow> (string \<times> string \<times> real) list" where
  "discreteInjections dvt itime =
     map (\<lambda>label. (getParentPathString label, getComponentName label,
                    columnValue dvt label itime))
         (columnLabels dvt)"

text \<open>
  The specification's words for the outputs to report: an output whose path matches a
  pattern as a whole and whose type is the required one, once for each pattern it
  matches, in the order of the traversal; and the outputs it warns about, which
  match a pattern and have another type.
\<close>

definition regexMatches :: "regex \<Rightarrow> string \<Rightarrow> string \<Rightarrow> bool" where
  "regexMatches rx outputPathArg thisOutputPath =
     (case rx outputPathArg of
        None \<Rightarrow> False
      | Some regex_match \<Rightarrow> regex_match thisOutputPath)"

definition matchedOutputs ::
  "regex \<Rightarrow> string \<Rightarrow> string list \<Rightarrow> component list \<Rightarrow> string list" where
  "matchedOutputs rx T outputPaths cs =
     [getPathName c (fst out).
        c \<leftarrow> cs, out \<leftarrow> componentOutputs c, outputPathArg \<leftarrow> outputPaths,
        snd out = T \<and> regexMatches rx outputPathArg (getPathName c (fst out))]"

definition mismatchedOutputs ::
  "regex \<Rightarrow> string \<Rightarrow> string list \<Rightarrow> component list \<Rightarrow> (string \<times> string) list" where
  "mismatchedOutputs rx T outputPaths cs =
     [(getPathName c (fst out), snd out).
        c \<leftarrow> cs, out \<leftarrow> componentOutputs c, outputPathArg \<leftarrow> outputPaths,
        snd out \<noteq> T \<and> regexMatches rx outputPathArg (getPathName c (fst out))]"

subsection \<open>Example inputs\<close>

text \<open>
  An instance of the regular-expression parameter for the examples: a fragment of the
  ECMAScript syntax of \<open>std::regex\<close> with ordinary characters, \<open>.\<close> for any character
  but a line break, and \<open>*\<close> after an ordinary character or \<open>.\<close>. A pattern is parsed
  into its atoms, each starred or not; a pattern with any other metacharacter is outside
  the fragment and this matcher does not compile it. \<open>matchAtoms\<close> matches the whole
  string, as \<open>std::regex_match\<close> does.
\<close>

datatype atom = AnyChar | Lit char

definition metaChar :: "char \<Rightarrow> bool" where
  "metaChar c = (c \<in> set ''*+?()[]{}|^$'' \<or> c = CHR 0x5C)"

fun parsePattern :: "string \<Rightarrow> (atom \<times> bool) list option" where
  "parsePattern [] = Some []"
| "parsePattern [c] =
     (if metaChar c then None
      else Some [(if c = CHR ''.'' then AnyChar else Lit c, False)])"
| "parsePattern (c # d # rest) =
     (if metaChar c then None
      else if d = CHR ''*''
        then map_option (Cons (if c = CHR ''.'' then AnyChar else Lit c, True))
               (parsePattern rest)
        else map_option (Cons (if c = CHR ''.'' then AnyChar else Lit c, False))
               (parsePattern (d # rest)))"

fun atomMatches :: "atom \<Rightarrow> char \<Rightarrow> bool" where
  "atomMatches AnyChar c = (c \<noteq> CHR 0x0A \<and> c \<noteq> CHR 0x0D)"
| "atomMatches (Lit l) c = (c = l)"

fun matchAtoms :: "(atom \<times> bool) list \<Rightarrow> string \<Rightarrow> bool" where
  "matchAtoms [] s = (s = [])"
| "matchAtoms ((a, False) # ps) [] = False"
| "matchAtoms ((a, False) # ps) (c # cs) = (atomMatches a c \<and> matchAtoms ps cs)"
| "matchAtoms ((a, True) # ps) [] = matchAtoms ps []"
| "matchAtoms ((a, True) # ps) (c # cs) =
     (matchAtoms ps (c # cs) \<or> (atomMatches a c \<and> matchAtoms ((a, True) # ps) cs))"

definition fragmentRegex :: regex where
  "fragmentRegex p = map_option matchAtoms (parsePattern p)"

text \<open>A pendulum with one pin joint and two actuators.\<close>

definition pendulumOutputValue :: "string \<Rightarrow> sysstate \<Rightarrow> real" where
  "pendulumOutputValue p s =
     (if p = ''/jointset/pin|joint_angle''
      then (case map_of (stateY s) ''/jointset/pin/q/value'' of Some v \<Rightarrow> v | None \<Rightarrow> 0)
      else 0)"

definition pendulum :: model where
  "pendulum =
     \<lparr>components =
        [\<lparr>componentPath = ''/jointset/pin'',
          componentOutputs = [(''joint_angle'', ''double''), (''axis'', ''Vec3'')]\<rparr>,
         \<lparr>componentPath = ''/forceset/a'', componentOutputs = [(''actuation'', ''double'')]\<rparr>,
         \<lparr>componentPath = ''/forceset/b'', componentOutputs = [(''actuation'', ''double'')]\<rparr>],
      actuators =
        [\<lparr>actuatorPath = ''/forceset/a'', controlSlots = [0]\<rparr>,
         \<lparr>actuatorPath = ''/forceset/b'', controlSlots = [1]\<rparr>],
      ySlots = [Some ''/jointset/pin/q/value'', None, Some ''/jointset/pin/q/speed''],
      outputValue = pendulumOutputValue\<rparr>"

text \<open>The same model with the controls of the two actuators allocated in the other order.\<close>

definition pendulumReordered :: model where
  "pendulumReordered =
     pendulum\<lparr>actuators :=
        [\<lparr>actuatorPath = ''/forceset/a'', controlSlots = [1]\<rparr>,
         \<lparr>actuatorPath = ''/forceset/b'', controlSlots = [0]\<rparr>]\<rparr>"

definition pendulumStates :: table where
  "pendulumStates =
     \<lparr>columnLabels = [''/jointset/pin/q/value'', ''/jointset/pin/q/speed''],
      tableRows = [(0, [1, 0]), (1, [2, 0])]\<rparr>"

definition pendulumControls :: table where
  "pendulumControls =
     \<lparr>columnLabels = [''/forceset/b'', ''/forceset/a''],
      tableRows = [(0, [5, 3]), (1, [6, 4])]\<rparr>"

text \<open>A controls table without the column of actuator \<open>b\<close>.\<close>

definition pendulumControlsMissing :: table where
  "pendulumControlsMissing =
     \<lparr>columnLabels = [''/forceset/a''], tableRows = [(0, [3]), (1, [4])]\<rparr>"

text \<open>A controls table with one row only.\<close>

definition pendulumControlsShort :: table where
  "pendulumControlsShort =
     \<lparr>columnLabels = [''/forceset/b'', ''/forceset/a''], tableRows = [(0, [5, 3])]\<rparr>"

definition noTable :: table where
  "noTable = \<lparr>columnLabels = [], tableRows = []\<rparr>"

definition pendulumDiscrete :: table where
  "pendulumDiscrete =
     \<lparr>columnLabels = [''/forceset/a/fatigue''], tableRows = [(0, [7]), (1, [8])]\<rparr>"


text \<open>A discrete-variables table with one row only.\<close>

definition pendulumDiscreteShort :: table where
  "pendulumDiscreteShort =
     \<lparr>columnLabels = [''/forceset/a/fatigue''], tableRows = [(0, [7])]\<rparr>"

text \<open>
  Controls tables with a column \<open>/forceset/c\<close> that names no control of the pendulum:
  with two rows, with one row, and with no row; and a states table with no row.
\<close>

definition pendulumControlsUnknown :: table where
  "pendulumControlsUnknown =
     \<lparr>columnLabels = [''/forceset/a'', ''/forceset/c''],
      tableRows = [(0, [3, 9]), (1, [4, 9])]\<rparr>"

definition pendulumControlsUnknownShort :: table where
  "pendulumControlsUnknownShort =
     \<lparr>columnLabels = [''/forceset/a'', ''/forceset/c''], tableRows = [(0, [3, 9])]\<rparr>"

definition pendulumControlsUnknownEmpty :: table where
  "pendulumControlsUnknownEmpty =
     \<lparr>columnLabels = [''/forceset/a'', ''/forceset/c''], tableRows = []\<rparr>"

definition pendulumStatesEmpty :: table where
  "pendulumStatesEmpty =
     \<lparr>columnLabels = [''/jointset/pin/q/value'', ''/jointset/pin/q/speed''],
      tableRows = []\<rparr>"

text \<open>The pendulum with two slots of Y that hold the same state variable path.\<close>

definition pendulumRepeatedLabel :: model where
  "pendulumRepeatedLabel =
     pendulum\<lparr>ySlots := [Some ''/jointset/pin/q/value'', Some ''/jointset/pin/q/value'']\<rparr>"

section \<open>Properties\<close>

lemmas example_defs = pendulum_def pendulumReordered_def pendulumStates_def
  pendulumControls_def pendulumControlsMissing_def pendulumControlsShort_def noTable_def
  pendulumDiscrete_def pendulumDiscreteShort_def pendulumControlsUnknown_def
  pendulumControlsUnknownShort_def pendulumControlsUnknownEmpty_def pendulumStatesEmpty_def
  pendulumRepeatedLabel_def fragmentRegex_def metaChar_def pendulumOutputValue_def

lemmas analyze_defs = analyze_def analyzeTrace_def analyzeFrom_def discreteSetup_def
  createSystemControlIndexMap_def createFromStatesTable_def getNumRows_def getNumColumns_def
  sampleStep_def getRowAtIndex_def getPathName_def controlName_def
  prescribe_def realizeVelocity_def setControls_def realizeReport_def
  setDiscreteVariableValue_def getDependentColumnAt_def getComponent_def
  getComponentName_def getParentPathString_def
  setControlValues.simps setDiscreteVariables.simps

subsection \<open>The controls vector\<close>

lemma setControlValues_length:
  "setControlValues cm names row i controls = Inr c' \<Longrightarrow> length c' = length controls"
proof (induction cm names row i controls rule: setControlValues.induct)
  case (1 cm names row i controls)
  then show ?case
    by (subst (asm) (2) setControlValues.simps) (auto split: if_splits option.splits)
qed



lemma setControlValues_values:
  "setControlValues cm names row i controls = Inr c'
   \<Longrightarrow> \<forall>k. i \<le> k \<and> k < length names \<longrightarrow> cm (names ! k) = Some (slot k)
   \<Longrightarrow> inj_on slot {i ..< length names}
   \<Longrightarrow> (\<forall>k. i \<le> k \<and> k < length names \<longrightarrow> c' ! slot k = row ! k) \<and>
       (\<forall>j. j \<notin> slot ` {i ..< length names} \<longrightarrow> c' ! j = controls ! j)"
proof (induction cm names row i controls rule: setControlValues.induct)
  case (1 cm names row i controls)
  show ?case
  proof (cases "i < length names")
    case False
    with "1.prems"(1) show ?thesis
      by (subst (asm) setControlValues.simps) simp
  next
    case True
    with "1.prems"(2) have si: "cm (names ! i) = Some (slot i)" by simp
    from "1.prems"(1) True si have
      inr: "slot i < length controls" "i < length row" and
      rec: "setControlValues cm names row (Suc i) (controls[slot i := row ! i]) = Inr c'"
      by (subst (asm) setControlValues.simps, simp split: if_splits)+
    have sub: "{Suc i ..< length names} \<subseteq> {i ..< length names}" by auto
    have inj': "inj_on slot {Suc i ..< length names}"
      using "1.prems"(3) sub by (rule inj_on_subset)
    have res': "\<forall>k. Suc i \<le> k \<and> k < length names \<longrightarrow> cm (names ! k) = Some (slot k)"
      using "1.prems"(2) by simp
    from "1.IH" [OF True inr(2) si inr(1) rec res' inj'] have
      ih1: "\<forall>k. Suc i \<le> k \<and> k < length names \<longrightarrow> c' ! slot k = row ! k" and
      ih2: "\<forall>j. j \<notin> slot ` {Suc i ..< length names}
               \<longrightarrow> c' ! j = (controls[slot i := row ! i]) ! j"
      by blast+
    have notin: "slot i \<notin> slot ` {Suc i ..< length names}"
    proof
      assume "slot i \<in> slot ` {Suc i ..< length names}"
      then obtain k where k: "Suc i \<le> k" "k < length names" "slot i = slot k" by auto
      with "1.prems"(3) True have "i = k" by (auto dest: inj_onD)
      with k show False by simp
    qed
    have here: "c' ! slot i = row ! i"
      using ih2 notin inr(1) by simp
    have a: "\<forall>k. i \<le> k \<and> k < length names \<longrightarrow> c' ! slot k = row ! k"
    proof (intro allI impI)
      fix k assume k: "i \<le> k \<and> k < length names"
      show "c' ! slot k = row ! k"
      proof (cases "k = i")
        case True then show ?thesis using here by simp
      next
        case False with k ih1 show ?thesis by simp
      qed
    qed
    have b: "\<forall>j. j \<notin> slot ` {i ..< length names} \<longrightarrow> c' ! j = controls ! j"
    proof (intro allI impI)
      fix j assume j: "j \<notin> slot ` {i ..< length names}"
      then have "j \<notin> slot ` {Suc i ..< length names}" using sub by blast
      moreover from j True have "j \<noteq> slot i" by auto
      ultimately show "c' ! j = controls ! j" using ih2 by simp
    qed
    from a b show ?thesis by blast
  qed
qed

text \<open>
  C1. The documentation of \<open>analyze\<close> promises that a control missing from the
  controls table is given the value 0. The controls vector is allocated with one slot
  for each column of the table, not for each control of the model: for the pendulum,
  whose control \<open>/forceset/b\<close> has index 1, and a controls table with the single column
  \<open>/forceset/a\<close>, the vector written into the state at both samples has one element,
  and no slot of it holds a 0 for \<open>/forceset/b\<close>.
\<close>

theorem analyze_missing_control_column:
  "(case createSystemControlIndexMap pendulum of
      Inr controlMap \<Rightarrow> controlMap ''/forceset/b'' = Some 1 | Inl e \<Rightarrow> False) \<and>
   columnLabels pendulumControlsMissing = [''/forceset/a''] \<and>
   analyzeTrace fragmentRegex ''double'' pendulum pendulumStates pendulumControlsMissing
       [''.*joint_angle''] noTable =
     ([InitSystem, LogDebug ''/jointset/pin|joint_angle'' ''double'',
       AddToReport ''/jointset/pin|joint_angle'', AddComponentReporter, InitSystem,
       GetState 0, Prescribe 0, RealizeVelocity 0, SetControls 0 [3], RealizeReport 0,
       GetState 1, Prescribe 1, RealizeVelocity 1, SetControls 1 [4], RealizeReport 1],
      Inr \<lparr>columnLabels = [''/jointset/pin|joint_angle''],
           tableRows = [(0, [1]), (1, [2])]\<rparr>)"
  by (simp add: example_defs analyze_defs)


subsection \<open>A run that returns a table\<close>

lemma analyze_InrD:
  assumes "analyze rx T m st ct ops dvt = Inr tbl"
  shows "\<exists>tr cm refs tr' reportRows.
           scanComponents rx T ops (components m) = (tr, None) \<and>
           createSystemControlIndexMap m = Inr cm \<and>
           getNumRows st = getNumRows ct \<and>
           discreteSetup m st dvt = Inr refs \<and>
           replay m ct cm dvt refs (registered tr) 0 (createFromStatesTable m st)
             (replicate (getNumColumns ct) 0) [] = (tr', Inr reportRows) \<and>
           tbl = \<lparr>columnLabels = registered tr, tableRows = reportRows\<rparr>"
  using assms
  by (auto simp: analyze_def analyzeTrace_def analyzeFrom_def Let_def
           split: prod.splits option.splits sum.splits if_splits)



lemma createFromStatesTable_length:
  "length (createFromStatesTable m st) = getNumRows st"
  by (simp add: createFromStatesTable_def getNumRows_def)






subsection \<open>The order check of the control index map\<close>

lemma indexActuatorControls_Inl:
  "indexActuatorControls p nc slots j i cm = Inl e \<Longrightarrow> e = ActuatorOrderError"
  by (induction slots arbitrary: j i cm) (auto split: if_splits)

lemma indexActuatorControls_Inr:
  "(\<exists>cm'. indexActuatorControls p nc slots j i cm = Inr (i + length slots, cm'))
     = (slots = [i ..< i + length slots])"
proof (induction slots arbitrary: j i cm)
  case Nil
  show ?case by simp
next
  case (Cons slot slots)
  have len: "i + length (slot # slots) = Suc i + length slots" by simp
  have upt: "[i ..< Suc i + length slots] = i # [Suc i ..< Suc i + length slots]"
    by (rule upt_conv_Cons) simp
  show ?case
  proof (cases "slot = i")
    case True
    have step: "indexActuatorControls p nc (slot # slots) j i cm
        = indexActuatorControls p nc slots (Suc j) (Suc i) (cm(controlName p nc j \<mapsto> i))"
      using True by simp
    show ?thesis
      unfolding step len upt
      by (simp only: Cons.IH True list.inject simp_thms)
  next
    case False
    have step: "indexActuatorControls p nc (slot # slots) j i cm = Inl ActuatorOrderError"
      using False by simp
    show ?thesis
      unfolding step len upt using False by simp
  qed
qed

lemma indexActuatorControls_count:
  "indexActuatorControls p nc slots j i cm = Inr (i', cm') \<Longrightarrow> i' = i + length slots"
proof (induction slots arbitrary: j i cm)
  case Nil
  then show ?case by simp
next
  case (Cons slot slots)
  from Cons.prems have
    "indexActuatorControls p nc slots (Suc j) (Suc i) (cm(controlName p nc j \<mapsto> i))
       = Inr (i', cm')"
    by (simp split: if_splits)
  from Cons.IH [OF this] show ?case by simp
qed

lemma indexActuators_Inl:
  "indexActuators acts i cm = Inl e \<Longrightarrow> e = ActuatorOrderError"
  by (induction acts arbitrary: i cm)
     (auto split: sum.splits prod.splits dest: indexActuatorControls_Inl)

lemma indexActuators_Inr:
  "(\<exists>cm'. indexActuators acts i cm = Inr cm')
     = (concat (map controlSlots acts)
          = [i ..< i + length (concat (map controlSlots acts))])"
proof (induction acts arbitrary: i cm)
  case Nil
  show ?case by simp
next
  case (Cons actu acts)
  let ?s = "controlSlots actu" and ?r = "concat (map controlSlots acts)"
  have len: "i + length (?s @ ?r) = i + length ?s + length ?r" by simp
  have split_upt: "[i ..< i + length ?s + length ?r]
      = [i ..< i + length ?s] @ [i + length ?s ..< i + length ?s + length ?r]"
    by (rule upt_add_eq_append) simp
  have eq: "(?s @ ?r = [i ..< i + length (?s @ ?r)])
      = (?s = [i ..< i + length ?s] \<and> ?r = [i + length ?s ..< i + length ?s + length ?r])"
    unfolding len split_upt by (rule append_eq_append_conv) simp
  show ?case
  proof (cases "indexActuatorControls (actuatorPath actu) (length ?s) ?s 0 i cm")
    case (Inl e)
    then have "?s \<noteq> [i ..< i + length ?s]"
      using indexActuatorControls_Inr [of "actuatorPath actu" "length ?s" ?s 0 i cm] by auto
    with Inl eq show ?thesis by simp
  next
    case (Inr r)
    obtain i' cm1 where r: "r = (i', cm1)" by (cases r)
    with Inr have i': "i' = i + length ?s" by (auto dest: indexActuatorControls_count)
    with Inr r have "?s = [i ..< i + length ?s]"
      using indexActuatorControls_Inr [of "actuatorPath actu" "length ?s" ?s 0 i cm] by auto
    with Inr r i' Cons [of "i + length ?s" cm1] eq show ?thesis by simp
  qed
qed

lemma createSystemControlIndexMap_cases:
  "(actuatorOrderMatches m \<longrightarrow> (\<exists>cm. createSystemControlIndexMap m = Inr cm)) \<and>
   (\<not> actuatorOrderMatches m \<longrightarrow> createSystemControlIndexMap m = Inl ActuatorOrderError)"
proof -
  have iff: "(\<exists>cm. createSystemControlIndexMap m = Inr cm) = actuatorOrderMatches m"
    unfolding createSystemControlIndexMap_def actuatorOrderMatches_def
    using indexActuators_Inr [of "actuators m" 0 Map.empty] by simp
  show ?thesis
  proof (cases "createSystemControlIndexMap m")
    case (Inl e)
    then have "e = ActuatorOrderError"
      unfolding createSystemControlIndexMap_def by (rule indexActuators_Inl)
    with Inl iff show ?thesis by auto
  next
    case (Inr cm)
    with iff show ?thesis by auto
  qed
qed

text \<open>
  C6. Building the system control index map (and \<open>checkOrderSystemControls\<close>) succeeds
  when the actuators in model-declared order name the controls in the order of the flat
  controls vector, and throws otherwise, in particular for every reordering of a
  matching model's actuators that changes the sequence of controls; the exception is
  the internal error and none of the row-count errors of the input validation.
\<close>

theorem control_index_map_order_check:
  "(actuatorOrderMatches m \<longrightarrow>
      (\<exists>controlMap. createSystemControlIndexMap m = Inr controlMap) \<and>
      checkOrderSystemControls m = None) \<and>
   (\<not> actuatorOrderMatches m \<longrightarrow>
      createSystemControlIndexMap m = Inl ActuatorOrderError \<and>
      checkOrderSystemControls m = Some ActuatorOrderError) \<and>
   (actuatorOrderMatches m \<and>
    length (concat (map controlSlots reordered)) = length (concat (map controlSlots (actuators m))) \<and>
    concat (map controlSlots reordered) \<noteq> concat (map controlSlots (actuators m)) \<longrightarrow>
      createSystemControlIndexMap (m\<lparr>actuators := reordered\<rparr>) = Inl ActuatorOrderError) \<and>
   ActuatorOrderError \<noteq> StatesControlsRowCountMismatch a b \<and>
   ActuatorOrderError \<noteq> DiscreteRowCountMismatch c d"
proof -
  have reorder: "createSystemControlIndexMap (m\<lparr>actuators := reordered\<rparr>) = Inl ActuatorOrderError"
    if "actuatorOrderMatches m"
      and "length (concat (map controlSlots reordered))
             = length (concat (map controlSlots (actuators m)))"
      and "concat (map controlSlots reordered) \<noteq> concat (map controlSlots (actuators m))"
  proof -
    from that have "\<not> actuatorOrderMatches (m\<lparr>actuators := reordered\<rparr>)"
      by (simp add: actuatorOrderMatches_def)
    then show ?thesis
      using createSystemControlIndexMap_cases [of "m\<lparr>actuators := reordered\<rparr>"] by simp
  qed
  show ?thesis
    using createSystemControlIndexMap_cases [of m] reorder
    by (auto simp: checkOrderSystemControls_def)
qed

theorem control_index_map_order_check_witness:
  "actuatorOrderMatches pendulum \<and>
   createSystemControlIndexMap pendulum
     = Inr [''/forceset/a'' \<mapsto> 0, ''/forceset/b'' \<mapsto> 1] \<and>
   checkOrderSystemControls pendulum = None \<and>
   \<not> actuatorOrderMatches pendulumReordered \<and>
   createSystemControlIndexMap pendulumReordered = Inl ActuatorOrderError \<and>
   checkOrderSystemControls pendulumReordered = Some ActuatorOrderError \<and>
   length (concat (map controlSlots (actuators pendulumReordered)))
     = length (concat (map controlSlots (actuators pendulum))) \<and>
   concat (map controlSlots (actuators pendulumReordered))
     \<noteq> concat (map controlSlots (actuators pendulum)) \<and>
   createSystemControlIndexMap (pendulum\<lparr>actuators := actuators pendulumReordered\<rparr>)
     = Inl ActuatorOrderError"
  using control_index_map_order_check [of pendulum "actuators pendulumReordered"]
    control_index_map_order_check [of pendulumReordered]
  by (simp add: actuatorOrderMatches_def createSystemControlIndexMap_def controlName_def
        example_defs)


subsection \<open>The state label map\<close>













subsection \<open>The collection of the outputs\<close>

lemma registered_append: "registered (tr @ tr') = registered tr @ registered tr'"
  by (induction tr rule: registered.induct) auto

lemma warnings_append: "warnings (tr @ tr') = warnings tr @ warnings tr'"
  by (induction tr rule: warnings.induct) auto

lemma registered_set: "(p \<in> set (registered tr)) = (AddToReport p \<in> set tr)"
  by (induction tr rule: registered.induct) auto

lemma warnings_set: "((p, ty) \<in> set (warnings tr)) = (LogWarn p ty \<in> set tr)"
  by (induction tr rule: warnings.induct) auto

lemma matchOutputPaths_ok:
  assumes "\<forall>p \<in> set pats. rx p \<noteq> None"
  shows "snd (matchOutputPaths rx T path ty pats) = None \<and>
         registered (fst (matchOutputPaths rx T path ty pats))
           = [path. pat \<leftarrow> pats, ty = T \<and> regexMatches rx pat path] \<and>
         warnings (fst (matchOutputPaths rx T path ty pats))
           = [(path, ty). pat \<leftarrow> pats, ty \<noteq> T \<and> regexMatches rx pat path]"
  using assms
  by (induction pats) (auto simp: regexMatches_def split: prod.splits)

lemma matchOutputPaths_compiles:
  "snd (matchOutputPaths rx T path ty pats) = None \<Longrightarrow> \<forall>p \<in> set pats. rx p \<noteq> None"
  by (induction pats) (auto split: option.splits prod.splits if_splits)

lemma scanOutputs_None:
  assumes "snd (scanOutputs rx T pats c outs) = None"
  shows "registered (fst (scanOutputs rx T pats c outs))
           = [getPathName c (fst out). out \<leftarrow> outs, pat \<leftarrow> pats,
                snd out = T \<and> regexMatches rx pat (getPathName c (fst out))] \<and>
         warnings (fst (scanOutputs rx T pats c outs))
           = [(getPathName c (fst out), snd out). out \<leftarrow> outs, pat \<leftarrow> pats,
                snd out \<noteq> T \<and> regexMatches rx pat (getPathName c (fst out))]"
  using assms
proof (induction outs)
  case Nil
  show ?case by simp
next
  case (Cons out outs)
  obtain name ty where out: "out = (name, ty)" by (cases out)
  obtain tr r where m: "matchOutputPaths rx T (getPathName c name) ty pats = (tr, r)"
    by (cases "matchOutputPaths rx T (getPathName c name) ty pats")
  obtain tr' r' where s: "scanOutputs rx T pats c outs = (tr', r')"
    by (cases "scanOutputs rx T pats c outs")
  from Cons.prems out m s have r: "r = None" and r': "r' = None"
    by (auto split: option.splits)
  from m r have "\<forall>p \<in> set pats. rx p \<noteq> None"
    using matchOutputPaths_compiles [of rx T "getPathName c name" ty pats] by simp
  from matchOutputPaths_ok [OF this, of T "getPathName c name" ty] m
  have tr: "registered tr = [getPathName c name. pat \<leftarrow> pats, ty = T \<and> regexMatches rx pat (getPathName c name)]"
        "warnings tr = [(getPathName c name, ty). pat \<leftarrow> pats, ty \<noteq> T \<and> regexMatches rx pat (getPathName c name)]"
    by simp_all
  from Cons.IH s r' have
    tr': "registered tr' = [getPathName c (fst out). out \<leftarrow> outs, pat \<leftarrow> pats,
                snd out = T \<and> regexMatches rx pat (getPathName c (fst out))]"
         "warnings tr' = [(getPathName c (fst out), snd out). out \<leftarrow> outs, pat \<leftarrow> pats,
                snd out \<noteq> T \<and> regexMatches rx pat (getPathName c (fst out))]"
    by simp_all
  have "scanOutputs rx T pats c (out # outs) = (tr @ tr', None)"
    using out m r s r' by simp
  then show ?case
    using tr tr' out by (simp add: registered_append warnings_append cong: if_cong)
qed

lemma scanOutputs_compiles:
  assumes "\<forall>p \<in> set pats. rx p \<noteq> None"
  shows "snd (scanOutputs rx T pats c outs) = None"
proof (induction outs)
  case Nil
  show ?case by simp
next
  case (Cons out outs)
  obtain name ty where out: "out = (name, ty)" by (cases out)
  from matchOutputPaths_ok [OF assms, of T "getPathName c name" ty] Cons out
  show ?case by (auto split: prod.splits option.splits)
qed

lemma scanComponents_None:
  assumes "snd (scanComponents rx T pats cs) = None"
  shows "registered (fst (scanComponents rx T pats cs)) = matchedOutputs rx T pats cs \<and>
         warnings (fst (scanComponents rx T pats cs)) = mismatchedOutputs rx T pats cs"
  using assms
proof (induction cs)
  case Nil
  show ?case by (simp add: matchedOutputs_def mismatchedOutputs_def)
next
  case (Cons c cs)
  obtain tr r where m: "scanOutputs rx T pats c (componentOutputs c) = (tr, r)"
    by (cases "scanOutputs rx T pats c (componentOutputs c)")
  obtain tr' r' where s: "scanComponents rx T pats cs = (tr', r')"
    by (cases "scanComponents rx T pats cs")
  from Cons.prems m s have r: "r = None" and r': "r' = None"
    by (auto split: option.splits)
  have "scanComponents rx T pats (c # cs) = (tr @ tr', None)"
    using m r s r' by simp
  then show ?case
    using scanOutputs_None [of rx T pats c "componentOutputs c"] m r Cons.IH s r'
    by (simp add: registered_append warnings_append matchedOutputs_def mismatchedOutputs_def
          cong: if_cong)
qed

lemma scanComponents_compiles:
  assumes "\<forall>p \<in> set pats. rx p \<noteq> None"
  shows "snd (scanComponents rx T pats cs) = None"
proof (induction cs)
  case Nil
  show ?case by simp
next
  case (Cons c cs)
  from scanOutputs_compiles [OF assms, of T c "componentOutputs c"] Cons
  show ?case by (auto split: prod.splits option.splits)
qed

lemma matchedOutputs_set:
  "(path \<in> set (matchedOutputs rx T pats cs))
     = (\<exists>c \<in> set cs. \<exists>out \<in> set (componentOutputs c). \<exists>pat \<in> set pats.
          path = getPathName c (fst out) \<and> snd out = T \<and> regexMatches rx pat path)"
  by (auto simp: matchedOutputs_def)

lemma mismatchedOutputs_set:
  "((path, ty) \<in> set (mismatchedOutputs rx T pats cs))
     = (\<exists>c \<in> set cs. \<exists>out \<in> set (componentOutputs c). \<exists>pat \<in> set pats.
          path = getPathName c (fst out) \<and> ty = snd out \<and> ty \<noteq> T \<and> regexMatches rx pat path)"
  by (auto simp: mismatchedOutputs_def)


subsection \<open>The trace of the replay loop\<close>

lemma sampleEvent_registered: "\<forall>e \<in> set tr. sampleEvent e \<Longrightarrow> registered tr = []"
proof (induction tr)
  case Nil
  show ?case by simp
next
  case (Cons e tr)
  then show ?case by (cases e) simp_all
qed

lemma sampleEvent_reporter:
  "\<forall>e \<in> set tr. sampleEvent e \<Longrightarrow> AddComponentReporter \<notin> set tr \<and> InitSystem \<notin> set tr"
  by auto

lemma setDiscreteVariables_events:
  "\<forall>e \<in> set (fst (setDiscreteVariables dvt refs itime idv state)). sampleEvent e"
proof (induction dvt refs itime idv state rule: setDiscreteVariables.induct)
  case (1 dvt refs itime idv state)
  show ?case
    by (subst setDiscreteVariables.simps)
       (use 1 in \<open>auto split: sum.splits prod.splits\<close>)
qed

lemma setDiscreteVariables_trace:
  "setDiscreteVariables dvt refs itime idv state = (tr, Inr s')
   \<Longrightarrow> \<exists>dvs. tr = map (\<lambda>(c, n, v). SetDiscreteVariableValue itime c n v) dvs \<and>
             length dvs = length (columnLabels dvt) - idv"
proof (induction dvt refs itime idv state arbitrary: tr rule: setDiscreteVariables.induct)
  case (1 dvt refs itime idv state)
  show ?case
  proof (cases "idv < length (columnLabels dvt)")
    case False
    with "1.prems" have "tr = []" by (subst (asm) setDiscreteVariables.simps) simp
    with False show ?thesis by simp
  next
    case True
    from "1.prems" True obtain v tr1 where
      v: "getDependentColumnAt dvt (columnLabels dvt ! idv) itime = Inr v" and
      lt: "idv < length refs" and
      rec: "setDiscreteVariables dvt refs itime (Suc idv)
              (setDiscreteVariableValue state (snd (refs ! idv)) (fst (refs ! idv)) v)
                = (tr1, Inr s')" and
      tr: "tr = SetDiscreteVariableValue itime (componentPath (snd (refs ! idv)))
                  (fst (refs ! idv)) v # tr1"
      by (subst (asm) setDiscreteVariables.simps)
         (auto split: sum.splits prod.splits if_splits)
    from "1.IH" [OF True v lt rec] obtain dvs where
      dvs: "tr1 = map (\<lambda>(c, n, v). SetDiscreteVariableValue itime c n v) dvs"
           "length dvs = length (columnLabels dvt) - Suc idv" by blast
    let ?d = "(componentPath (snd (refs ! idv)), fst (refs ! idv), v)"
    have "tr = map (\<lambda>(c, n, v). SetDiscreteVariableValue itime c n v) (?d # dvs)"
      using tr dvs(1) by simp
    moreover have "length (?d # dvs) = length (columnLabels dvt) - idv"
      using dvs(2) True by simp
    ultimately show ?thesis by blast
  qed
qed

lemma setDiscreteVariables_keeps:
  "setDiscreteVariables dvt refs itime idv state = (tr, Inr s')
   \<Longrightarrow> stateTime s' = stateTime state \<and> prescribed s' = prescribed state \<and>
       stateControls s' = stateControls state \<and> stateY s' = stateY state \<and>
       realizedStage s' = realizedStage state"
proof (induction dvt refs itime idv state arbitrary: tr rule: setDiscreteVariables.induct)
  case (1 dvt refs itime idv state)
  show ?case
  proof (cases "idv < length (columnLabels dvt)")
    case False
    with "1.prems" have "s' = state" by (subst (asm) setDiscreteVariables.simps) simp
    then show ?thesis by simp
  next
    case True
    from "1.prems" True obtain v tr1 where
      v: "getDependentColumnAt dvt (columnLabels dvt ! idv) itime = Inr v" and
      lt: "idv < length refs" and
      rec: "setDiscreteVariables dvt refs itime (Suc idv)
              (setDiscreteVariableValue state (snd (refs ! idv)) (fst (refs ! idv)) v)
                = (tr1, Inr s')"
      by (subst (asm) setDiscreteVariables.simps)
         (auto split: sum.splits prod.splits if_splits)
    from "1.IH" [OF True v lt rec] show ?thesis
      by (simp add: setDiscreteVariableValue_def)
  qed
qed

lemma setDiscreteVariables_eventD:
  "setDiscreteVariables dvt refs itime idv state = (tr, r) \<Longrightarrow> e \<in> set tr \<Longrightarrow> sampleEvent e"
  using setDiscreteVariables_events [of dvt refs itime idv state] by simp

lemma sampleStep_events:
  "\<forall>e \<in> set (fst (sampleStep m ct cm dvt refs reported itime state0 controls reportRows)).
     sampleEvent e"
  by (auto simp: sampleStep_def Let_def realizeReport_def split: sum.splits prod.splits
           dest: setDiscreteVariables_eventD)

lemma sampleStep_Inr:
  assumes "sampleStep m ct cm dvt refs reported itime state0 controls reportRows
             = (tr, Inr (controls', state4, reportRows'))"
  shows "(\<exists>dvs. tr = sampleTrace itime controls' dvs \<and> length dvs = getNumColumns dvt) \<and>
         reportRows' = reportRows @ [(stateTime state0, map (\<lambda>p. outputValue m p state4) reported)] \<and>
         prescribed state4 \<and> realizedStage state4 = StageReport \<and>
         stateControls state4 = controls' \<and> stateY state4 = stateY state0"
proof -
  from assms obtain controlsRow where
    row: "getRowAtIndex ct itime = Inr controlsRow" and
    sc: "setControlValues cm (columnLabels ct) controlsRow 0 controls = Inr controls'"
    by (auto simp: sampleStep_def Let_def split: prod.splits sum.splits if_splits)
  let ?s2 = "setControls (realizeVelocity (prescribe state0)) controls'"
  obtain dtr state3 where
    d: "(if getNumColumns dvt \<noteq> 0 then setDiscreteVariables dvt refs itime 0 ?s2
         else ([], Inr ?s2)) = (dtr, Inr state3)" and
    tr: "tr = [GetState itime, Prescribe itime, RealizeVelocity itime,
               SetControls itime controls'] @ dtr @ [RealizeReport itime]" and
    fin: "realizeReport m reported state3 reportRows = (state4, reportRows')"
    using assms row sc
    by (auto simp: sampleStep_def Let_def split: prod.splits sum.splits if_splits)
  have dvs: "\<exists>dvs. dtr = map (\<lambda>(c, n, v). SetDiscreteVariableValue itime c n v) dvs \<and>
                length dvs = getNumColumns dvt"
  proof (cases "getNumColumns dvt = 0")
    case True
    with d show ?thesis by simp
  next
    case False
    with d have "setDiscreteVariables dvt refs itime 0 ?s2 = (dtr, Inr state3)" by simp
    from setDiscreteVariables_trace [OF this] show ?thesis
      by (simp add: getNumColumns_def)
  qed
  have keep: "stateTime state3 = stateTime state0 \<and> prescribed state3 \<and>
              stateControls state3 = controls' \<and> stateY state3 = stateY state0"
  proof (cases "getNumColumns dvt = 0")
    case True
    with d have "state3 = ?s2" by simp
    then show ?thesis
      by (simp add: setControls_def realizeVelocity_def prescribe_def)
  next
    case False
    with d have "setDiscreteVariables dvt refs itime 0 ?s2 = (dtr, Inr state3)" by simp
    from setDiscreteVariables_keeps [OF this] show ?thesis
      by (simp add: setControls_def realizeVelocity_def prescribe_def)
  qed
  from dvs tr have "\<exists>dvs. tr = sampleTrace itime controls' dvs \<and> length dvs = getNumColumns dvt"
    by (auto simp: sampleTrace_def)
  with fin keep show ?thesis
    by (auto simp: realizeReport_def Let_def)
qed


lemma replay_events:
  "\<forall>e \<in> set (fst (replay m ct cm dvt refs reported itime states controls reportRows)).
     sampleEvent e"
proof (induction states arbitrary: itime controls reportRows)
  case Nil
  show ?case by simp
next
  case (Cons state0 states)
  obtain tr1 r1 where
    st: "sampleStep m ct cm dvt refs reported itime state0 controls reportRows = (tr1, r1)"
    by (cases "sampleStep m ct cm dvt refs reported itime state0 controls reportRows")
  with sampleStep_events [of m ct cm dvt refs reported itime state0 controls reportRows]
  have e1: "\<forall>e \<in> set tr1. sampleEvent e" by simp
  show ?case
  proof (cases r1)
    case (Inl err)
    with st e1 show ?thesis by simp
  next
    case (Inr res)
    obtain controls1 state4 rows1 where res: "res = (controls1, state4, rows1)"
      by (cases res)
    obtain tr2 r2 where
      rp: "replay m ct cm dvt refs reported (Suc itime) states controls1 rows1 = (tr2, r2)"
      by (cases "replay m ct cm dvt refs reported (Suc itime) states controls1 rows1")
    with Cons [of "Suc itime" controls1 rows1] have "\<forall>e \<in> set tr2. sampleEvent e" by simp
    with st Inr res rp e1 show ?thesis by auto
  qed
qed

lemma replay_Inr:
  "replay m ct cm dvt refs reported itime states controls reportRows = (tr, Inr reportRows')
   \<Longrightarrow> \<exists>samples.
         tr = concat samples \<and> length samples = length states \<and>
         (\<forall>k < length samples. \<exists>v dvs. samples ! k = sampleTrace (itime + k) v dvs \<and>
                                      length dvs = getNumColumns dvt) \<and>
         length reportRows' = length reportRows + length states \<and>
         map fst reportRows' = map fst reportRows @ map stateTime states \<and>
         (\<forall>row \<in> set reportRows'. row \<in> set reportRows \<or> length (snd row) = length reported)"
proof (induction states arbitrary: itime controls reportRows tr)
  case Nil
  then show ?case by auto
next
  case (Cons state0 states)
  from Cons.prems obtain tr1 controls1 state4 rows1 tr2 where
    st: "sampleStep m ct cm dvt refs reported itime state0 controls reportRows
           = (tr1, Inr (controls1, state4, rows1))" and
    rp: "replay m ct cm dvt refs reported (Suc itime) states controls1 rows1
           = (tr2, Inr reportRows')" and
    tr: "tr = tr1 @ tr2"
    by (auto split: prod.splits sum.splits)
  from sampleStep_Inr [OF st] obtain dvs where
    s1: "tr1 = sampleTrace itime controls1 dvs" "length dvs = getNumColumns dvt" and
    r1: "rows1 = reportRows @ [(stateTime state0, map (\<lambda>p. outputValue m p state4) reported)]"
    by blast
  from Cons.IH [OF rp] obtain samples where
    ih: "tr2 = concat samples" "length samples = length states"
        "\<forall>k < length samples. \<exists>v dvs. samples ! k = sampleTrace (Suc itime + k) v dvs \<and>
                                      length dvs = getNumColumns dvt"
        "length reportRows' = length rows1 + length states"
        "map fst reportRows' = map fst rows1 @ map stateTime states"
        "\<forall>row \<in> set reportRows'. row \<in> set rows1 \<or> length (snd row) = length reported"
    by blast
  have a: "tr = concat (tr1 # samples)" using tr ih(1) by simp
  have b: "length (tr1 # samples) = length (state0 # states)" using ih(2) by simp
  have c: "\<forall>k < length (tr1 # samples).
             \<exists>v dvs. (tr1 # samples) ! k = sampleTrace (itime + k) v dvs \<and>
                     length dvs = getNumColumns dvt"
  proof (intro allI impI)
    fix k assume k: "k < length (tr1 # samples)"
    show "\<exists>v dvs. (tr1 # samples) ! k = sampleTrace (itime + k) v dvs \<and>
                  length dvs = getNumColumns dvt"
    proof (cases k)
      case 0
      with s1 show ?thesis by auto
    next
      case (Suc k')
      with k ih(3) show ?thesis by simp
    qed
  qed
  have d: "length reportRows' = length reportRows + length (state0 # states)"
    using ih(4) r1 by simp
  have e: "map fst reportRows' = map fst reportRows @ map stateTime (state0 # states)"
    using ih(5) r1 by simp
  have f: "\<forall>row \<in> set reportRows'. row \<in> set reportRows \<or> length (snd row) = length reported"
    using ih(6) r1 by auto
  from a b c d e f show ?case by blast
qed


lemma setDiscreteVariables_writes:
  "setDiscreteVariables dvt refs itime idv state = (tr, Inr s')
   \<Longrightarrow> tr = map (\<lambda>j. SetDiscreteVariableValue itime (componentPath (snd (refs ! j)))
                       (fst (refs ! j)) (columnValue dvt (columnLabels dvt ! j) itime))
                [idv ..< length (columnLabels dvt)] \<and>
       stateDiscrete s'
         = rev (map (\<lambda>j. ((componentPath (snd (refs ! j)), fst (refs ! j)),
                           columnValue dvt (columnLabels dvt ! j) itime))
                  [idv ..< length (columnLabels dvt)])
           @ stateDiscrete state \<and>
       (\<forall>j. idv \<le> j \<and> j < length (columnLabels dvt) \<longrightarrow>
            j < length refs \<and>
            (\<exists>v. getDependentColumnAt dvt (columnLabels dvt ! j) itime = Inr v))"
proof (induction dvt refs itime idv state arbitrary: tr rule: setDiscreteVariables.induct)
  case (1 dvt refs itime idv state)
  show ?case
  proof (cases "idv < length (columnLabels dvt)")
    case False
    with "1.prems" have "tr = []" "s' = state"
      by (subst (asm) setDiscreteVariables.simps, simp)+
    with False show ?thesis by auto
  next
    case True
    from "1.prems" True obtain v tr1 where
      v: "getDependentColumnAt dvt (columnLabels dvt ! idv) itime = Inr v" and
      lt: "idv < length refs" and
      rec: "setDiscreteVariables dvt refs itime (Suc idv)
              (setDiscreteVariableValue state (snd (refs ! idv)) (fst (refs ! idv)) v)
                = (tr1, Inr s')" and
      tr: "tr = SetDiscreteVariableValue itime (componentPath (snd (refs ! idv)))
                  (fst (refs ! idv)) v # tr1"
      by (subst (asm) setDiscreteVariables.simps)
         (auto split: sum.splits prod.splits if_splits)
    have cv: "columnValue dvt (columnLabels dvt ! idv) itime = v"
      using v by (simp add: columnValue_def)
    have upt: "[idv ..< length (columnLabels dvt)] = idv # [Suc idv ..< length (columnLabels dvt)]"
      using True by (rule upt_conv_Cons)
    from "1.IH" [OF True v lt rec] have
      ih1: "tr1 = map (\<lambda>j. SetDiscreteVariableValue itime (componentPath (snd (refs ! j)))
                       (fst (refs ! j)) (columnValue dvt (columnLabels dvt ! j) itime))
                [Suc idv ..< length (columnLabels dvt)]" and
      ih2: "stateDiscrete s'
         = rev (map (\<lambda>j. ((componentPath (snd (refs ! j)), fst (refs ! j)),
                           columnValue dvt (columnLabels dvt ! j) itime))
                  [Suc idv ..< length (columnLabels dvt)])
           @ stateDiscrete (setDiscreteVariableValue state (snd (refs ! idv))
                              (fst (refs ! idv)) v)" and
      ih3: "\<forall>j. Suc idv \<le> j \<and> j < length (columnLabels dvt) \<longrightarrow>
            j < length refs \<and>
            (\<exists>v. getDependentColumnAt dvt (columnLabels dvt ! j) itime = Inr v)"
      by blast+
    have a: "tr = map (\<lambda>j. SetDiscreteVariableValue itime (componentPath (snd (refs ! j)))
                       (fst (refs ! j)) (columnValue dvt (columnLabels dvt ! j) itime))
                [idv ..< length (columnLabels dvt)]"
      unfolding upt using tr ih1 cv by simp
    have b: "stateDiscrete s'
         = rev (map (\<lambda>j. ((componentPath (snd (refs ! j)), fst (refs ! j)),
                           columnValue dvt (columnLabels dvt ! j) itime))
                  [idv ..< length (columnLabels dvt)])
           @ stateDiscrete state"
      unfolding upt using ih2 cv by (simp add: setDiscreteVariableValue_def)
    have c: "\<forall>j. idv \<le> j \<and> j < length (columnLabels dvt) \<longrightarrow>
            j < length refs \<and>
            (\<exists>v. getDependentColumnAt dvt (columnLabels dvt ! j) itime = Inr v)"
    proof (intro allI impI)
      fix j assume j: "idv \<le> j \<and> j < length (columnLabels dvt)"
      show "j < length refs \<and>
            (\<exists>v. getDependentColumnAt dvt (columnLabels dvt ! j) itime = Inr v)"
      proof (cases "j = idv")
        case True
        with v lt show ?thesis by simp
      next
        case False
        with j have "Suc idv \<le> j \<and> j < length (columnLabels dvt)" by simp
        with ih3 show ?thesis by blast
      qed
    qed
    from a b c show ?thesis by blast
  qed
qed

lemma sampleStep_writes:
  assumes "sampleStep m ct cm dvt refs reported itime stateIn controls reportRows
             = (tr, Inr (controls', stateOut, reportRows'))"
  shows "tr = sampleTrace itime controls' (discreteWrites dvt refs itime) \<and>
         stateDiscrete stateOut
           = rev (map (\<lambda>(c, n, v). ((c, n), v)) (discreteWrites dvt refs itime))
             @ stateDiscrete stateIn \<and>
         (\<forall>idv < getNumColumns dvt.
            idv < length refs \<and>
            (\<exists>v. getDependentColumnAt dvt (columnLabels dvt ! idv) itime = Inr v)) \<and>
         (\<exists>controlsRow. getRowAtIndex ct itime = Inr controlsRow \<and>
            setControlValues cm (columnLabels ct) controlsRow 0 controls = Inr controls')"
proof -
  from assms obtain controlsRow where
    row: "getRowAtIndex ct itime = Inr controlsRow" and
    sc: "setControlValues cm (columnLabels ct) controlsRow 0 controls = Inr controls'"
    by (auto simp: sampleStep_def Let_def split: prod.splits sum.splits if_splits)
  let ?s2 = "setControls (realizeVelocity (prescribe stateIn)) controls'"
  obtain dtr state3 where
    d: "(if getNumColumns dvt \<noteq> 0 then setDiscreteVariables dvt refs itime 0 ?s2
         else ([], Inr ?s2)) = (dtr, Inr state3)" and
    tr: "tr = [GetState itime, Prescribe itime, RealizeVelocity itime,
               SetControls itime controls'] @ dtr @ [RealizeReport itime]" and
    fin: "realizeReport m reported state3 reportRows = (stateOut, reportRows')"
    using assms row sc
    by (auto simp: sampleStep_def Let_def split: prod.splits sum.splits if_splits)
  have s2: "stateDiscrete ?s2 = stateDiscrete stateIn"
    by (simp add: setControls_def realizeVelocity_def prescribe_def)
  have out: "stateDiscrete stateOut = stateDiscrete state3"
    using fin by (auto simp: realizeReport_def Let_def)
  have w: "dtr = map (\<lambda>(c, n, v). SetDiscreteVariableValue itime c n v)
                   (discreteWrites dvt refs itime) \<and>
           stateDiscrete state3
             = rev (map (\<lambda>(c, n, v). ((c, n), v)) (discreteWrites dvt refs itime))
               @ stateDiscrete stateIn \<and>
           (\<forall>idv < getNumColumns dvt.
              idv < length refs \<and>
              (\<exists>v. getDependentColumnAt dvt (columnLabels dvt ! idv) itime = Inr v))"
  proof (cases "getNumColumns dvt = 0")
    case True
    with d s2 show ?thesis by (simp add: discreteWrites_def)
  next
    case False
    with d have "setDiscreteVariables dvt refs itime 0 ?s2 = (dtr, Inr state3)" by simp
    from setDiscreteVariables_writes [OF this] s2 show ?thesis
      by (simp add: discreteWrites_def getNumColumns_def comp_def)
  qed
  from w tr out row sc show ?thesis
    by (simp add: sampleTrace_def)
qed


lemma replay_writes:
  "replay m ct cm dvt refs reported itime states controls reportRows = (tr, Inr reportRows')
   \<Longrightarrow> \<exists>samples.
         tr = concat samples \<and> length samples = length states \<and>
         (\<forall>k < length samples. \<exists>v controlsRow prev.
            samples ! k = sampleTrace (itime + k) v (discreteWrites dvt refs (itime + k)) \<and>
            getRowAtIndex ct (itime + k) = Inr controlsRow \<and>
            length prev = length controls \<and>
            setControlValues cm (columnLabels ct) controlsRow 0 prev = Inr v \<and>
            (\<forall>idv < getNumColumns dvt.
               idv < length refs \<and>
               (\<exists>x. getDependentColumnAt dvt (columnLabels dvt ! idv) (itime + k) = Inr x)))"
proof (induction states arbitrary: itime controls reportRows tr)
  case Nil
  then show ?case by auto
next
  case (Cons stateIn states)
  from Cons.prems obtain tr1 controls1 stateOut rows1 tr2 where
    st: "sampleStep m ct cm dvt refs reported itime stateIn controls reportRows
           = (tr1, Inr (controls1, stateOut, rows1))" and
    rp: "replay m ct cm dvt refs reported (Suc itime) states controls1 rows1
           = (tr2, Inr reportRows')" and
    tr: "tr = tr1 @ tr2"
    by (auto split: prod.splits sum.splits)
  from sampleStep_writes [OF st] obtain controlsRow where
    s1: "tr1 = sampleTrace itime controls1 (discreteWrites dvt refs itime)" and
    s2: "\<forall>idv < getNumColumns dvt.
            idv < length refs \<and>
            (\<exists>x. getDependentColumnAt dvt (columnLabels dvt ! idv) itime = Inr x)" and
    s3: "getRowAtIndex ct itime = Inr controlsRow"
        "setControlValues cm (columnLabels ct) controlsRow 0 controls = Inr controls1"
    by blast
  from setControlValues_length [OF s3(2)] have len1: "length controls1 = length controls" .
  from Cons.IH [OF rp] obtain samples where
    ih: "tr2 = concat samples" "length samples = length states"
        "\<forall>k < length samples. \<exists>v controlsRow prev.
            samples ! k = sampleTrace (Suc itime + k) v (discreteWrites dvt refs (Suc itime + k)) \<and>
            getRowAtIndex ct (Suc itime + k) = Inr controlsRow \<and>
            length prev = length controls1 \<and>
            setControlValues cm (columnLabels ct) controlsRow 0 prev = Inr v \<and>
            (\<forall>idv < getNumColumns dvt.
               idv < length refs \<and>
               (\<exists>x. getDependentColumnAt dvt (columnLabels dvt ! idv) (Suc itime + k) = Inr x))"
    by blast
  have a: "tr = concat (tr1 # samples)" using tr ih(1) by simp
  have b: "length (tr1 # samples) = length (stateIn # states)" using ih(2) by simp
  have c: "\<forall>k < length (tr1 # samples). \<exists>v controlsRow prev.
            (tr1 # samples) ! k = sampleTrace (itime + k) v (discreteWrites dvt refs (itime + k)) \<and>
            getRowAtIndex ct (itime + k) = Inr controlsRow \<and>
            length prev = length controls \<and>
            setControlValues cm (columnLabels ct) controlsRow 0 prev = Inr v \<and>
            (\<forall>idv < getNumColumns dvt.
               idv < length refs \<and>
               (\<exists>x. getDependentColumnAt dvt (columnLabels dvt ! idv) (itime + k) = Inr x))"
  proof (intro allI impI)
    fix k assume k: "k < length (tr1 # samples)"
    show "\<exists>v controlsRow prev.
            (tr1 # samples) ! k = sampleTrace (itime + k) v (discreteWrites dvt refs (itime + k)) \<and>
            getRowAtIndex ct (itime + k) = Inr controlsRow \<and>
            length prev = length controls \<and>
            setControlValues cm (columnLabels ct) controlsRow 0 prev = Inr v \<and>
            (\<forall>idv < getNumColumns dvt.
               idv < length refs \<and>
               (\<exists>x. getDependentColumnAt dvt (columnLabels dvt ! idv) (itime + k) = Inr x))"
    proof (cases k)
      case 0
      with s1 s2 s3 show ?thesis by auto
    next
      case (Suc k')
      with k have "k' < length samples" by simp
      with ih(3) len1 Suc show ?thesis by simp
    qed
  qed
  from a b c show ?case by blast
qed

lemma getComponent_path: "getComponent m path = Inr c \<Longrightarrow> componentPath c = path"
  by (auto simp: getComponent_def find_Some_iff split: option.splits)

lemma resolveDiscreteComponents_refs:
  "resolveDiscreteComponents m labels = Inr refs
   \<Longrightarrow> length refs = length labels \<and>
       (\<forall>idv < length labels.
          fst (refs ! idv) = getComponentName (labels ! idv) \<and>
          componentPath (snd (refs ! idv)) = getParentPathString (labels ! idv))"
proof (induction labels arbitrary: refs)
  case Nil
  then show ?case by simp
next
  case (Cons label labels)
  from Cons.prems obtain c refs' where
    c: "getComponent m (getParentPathString label) = Inr c" and
    r: "resolveDiscreteComponents m labels = Inr refs'" and
    refs: "refs = (getComponentName label, c) # refs'"
    by (auto split: sum.splits)
  from Cons.IH [OF r] getComponent_path [OF c] refs show ?case
    by (auto simp: less_Suc_eq_0_disj)
qed

lemma discreteSetup_writes:
  assumes "discreteSetup m st dvt = Inr refs"
  shows "discreteWrites dvt refs itime = discreteInjections dvt itime"
proof (cases "getNumColumns dvt = 0")
  case True
  then show ?thesis
    by (simp add: discreteWrites_def discreteInjections_def getNumColumns_def)
next
  case False
  with assms have "resolveDiscreteComponents m (columnLabels dvt) = Inr refs"
    by (simp add: discreteSetup_def split: if_splits)
  from resolveDiscreteComponents_refs [OF this] show ?thesis
    by (auto simp: discreteWrites_def discreteInjections_def getNumColumns_def
             intro!: nth_equalityI)
qed

subsection \<open>The trace of a run\<close>

lemma matchOutputPaths_events:
  "\<forall>e \<in> set (fst (matchOutputPaths rx T path ty pats)).
     e \<noteq> AddComponentReporter \<and> e \<noteq> InitSystem \<and> \<not> sampleEvent e"
  by (induction pats) (auto split: option.splits prod.splits)

lemma scanOutputs_events:
  "\<forall>e \<in> set (fst (scanOutputs rx T pats c outs)).
     e \<noteq> AddComponentReporter \<and> e \<noteq> InitSystem \<and> \<not> sampleEvent e"
proof (induction outs)
  case Nil
  show ?case by simp
next
  case (Cons out outs)
  obtain name ty where out: "out = (name, ty)" by (cases out)
  obtain tr r where m: "matchOutputPaths rx T (getPathName c name) ty pats = (tr, r)"
    by (cases "matchOutputPaths rx T (getPathName c name) ty pats")
  with matchOutputPaths_events [of rx T "getPathName c name" ty pats]
  have e1: "\<forall>e \<in> set tr. e \<noteq> AddComponentReporter \<and> e \<noteq> InitSystem \<and> \<not> sampleEvent e"
    by simp
  obtain tr' r' where s: "scanOutputs rx T pats c outs = (tr', r')"
    by (cases "scanOutputs rx T pats c outs")
  with Cons have e2: "\<forall>e \<in> set tr'. e \<noteq> AddComponentReporter \<and> e \<noteq> InitSystem \<and> \<not> sampleEvent e"
    by simp
  from out m s e1 e2 show ?case by (cases r) auto
qed

lemma scanComponents_events:
  "\<forall>e \<in> set (fst (scanComponents rx T pats cs)).
     e \<noteq> AddComponentReporter \<and> e \<noteq> InitSystem \<and> \<not> sampleEvent e"
proof (induction cs)
  case Nil
  show ?case by simp
next
  case (Cons c cs)
  obtain tr r where m: "scanOutputs rx T pats c (componentOutputs c) = (tr, r)"
    by (cases "scanOutputs rx T pats c (componentOutputs c)")
  with scanOutputs_events [of rx T pats c "componentOutputs c"]
  have e1: "\<forall>e \<in> set tr. e \<noteq> AddComponentReporter \<and> e \<noteq> InitSystem \<and> \<not> sampleEvent e"
    by simp
  obtain tr' r' where s: "scanComponents rx T pats cs = (tr', r')"
    by (cases "scanComponents rx T pats cs")
  with Cons have e2: "\<forall>e \<in> set tr'. e \<noteq> AddComponentReporter \<and> e \<noteq> InitSystem \<and> \<not> sampleEvent e"
    by simp
  from m s e1 e2 show ?case by (cases r) auto
qed

lemma analyzeFrom_trace:
  "\<exists>rest. fst (analyzeFrom m st ct dvt reported) = AddComponentReporter # InitSystem # rest \<and>
          (\<forall>e \<in> set rest. sampleEvent e)"
proof (cases "createSystemControlIndexMap m")
  case (Inl e)
  then have "fst (analyzeFrom m st ct dvt reported) = AddComponentReporter # InitSystem # []"
    by (simp add: analyzeFrom_def)
  then show ?thesis by simp
next
  case (Inr cm)
  show ?thesis
  proof (cases "getNumRows st \<noteq> getNumRows ct")
    case True
    with Inr have "fst (analyzeFrom m st ct dvt reported) = AddComponentReporter # InitSystem # []"
      by (simp add: analyzeFrom_def)
    then show ?thesis by simp
  next
    case False
    show ?thesis
    proof (cases "discreteSetup m st dvt")
      case (Inl e)
      with Inr False
      have "fst (analyzeFrom m st ct dvt reported) = AddComponentReporter # InitSystem # []"
        by (simp add: analyzeFrom_def)
      then show ?thesis by simp
    next
      case refs: (Inr refs)
      obtain rtr rr where
        rp: "replay m ct cm dvt refs reported 0 (createFromStatesTable m st)
               (replicate (getNumColumns ct) 0) [] = (rtr, rr)"
        by (cases "replay m ct cm dvt refs reported 0 (createFromStatesTable m st)
               (replicate (getNumColumns ct) 0) []")
      with replay_events [of m ct cm dvt refs reported 0 "createFromStatesTable m st"
               "replicate (getNumColumns ct) 0" "[]"]
      have ev: "\<forall>e \<in> set rtr. sampleEvent e" by simp
      from Inr False refs rp
      have "fst (analyzeFrom m st ct dvt reported) = AddComponentReporter # InitSystem # rtr"
        by (cases rr) (simp_all add: analyzeFrom_def)
      with ev show ?thesis by simp
    qed
  qed
qed

lemma analyzeTrace_cases:
  "\<exists>scan rest.
     scanComponents rx T ops (components m) = (scan, snd (scanComponents rx T ops (components m))) \<and>
     fst (analyzeTrace rx T m st ct ops dvt) = InitSystem # scan @ rest \<and>
     (\<forall>e \<in> set rest. sampleEvent e \<or> e = AddComponentReporter \<or> e = InitSystem) \<and>
     (rest = [] \<or> (\<exists>rest'. rest = AddComponentReporter # InitSystem # rest' \<and>
                       (\<forall>e \<in> set rest'. sampleEvent e))) \<and>
     ((rest = []) = (snd (scanComponents rx T ops (components m)) \<noteq> None))"
proof -
  obtain scan r where sc: "scanComponents rx T ops (components m) = (scan, r)"
    by (cases "scanComponents rx T ops (components m)")
  show ?thesis
  proof (cases r)
    case (Some e)
    with sc have "fst (analyzeTrace rx T m st ct ops dvt) = InitSystem # scan @ []"
      by (simp add: analyzeTrace_def)
    with sc Some show ?thesis by (intro exI [of _ scan] exI [of _ "[]"]) simp
  next
    case None
    from analyzeFrom_trace [of m st ct dvt "registered scan"] obtain rest' where
      r: "fst (analyzeFrom m st ct dvt (registered scan)) = AddComponentReporter # InitSystem # rest'"
         "\<forall>e \<in> set rest'. sampleEvent e" by blast
    obtain atr ar where af: "analyzeFrom m st ct dvt (registered scan) = (atr, ar)"
      by (cases "analyzeFrom m st ct dvt (registered scan)")
    with sc None r(1) have "fst (analyzeTrace rx T m st ct ops dvt)
                         = InitSystem # scan @ (AddComponentReporter # InitSystem # rest')"
      by (simp add: analyzeTrace_def)
    with sc None r(2) show ?thesis
      by (intro exI [of _ scan] exI [of _ "AddComponentReporter # InitSystem # rest'"]) auto
  qed
qed


lemma later_events_silent:
  "\<forall>e \<in> set tr. sampleEvent e \<or> e = AddComponentReporter \<or> e = InitSystem
   \<Longrightarrow> registered tr = [] \<and> warnings tr = []"
proof (induction tr)
  case Nil
  show ?case by simp
next
  case (Cons e tr)
  then show ?case by (cases e) auto
qed

lemma analyzeTrace_registered:
  "registered (fst (analyzeTrace rx T m st ct ops dvt))
     = registered (fst (scanComponents rx T ops (components m))) \<and>
   warnings (fst (analyzeTrace rx T m st ct ops dvt))
     = warnings (fst (scanComponents rx T ops (components m)))"
proof -
  from analyzeTrace_cases [of rx T ops m st ct dvt] obtain scan rest where
    sc: "fst (scanComponents rx T ops (components m)) = scan" and
    tr: "fst (analyzeTrace rx T m st ct ops dvt) = InitSystem # scan @ rest" and
    ev: "\<forall>e \<in> set rest. sampleEvent e \<or> e = AddComponentReporter \<or> e = InitSystem"
    by (metis fst_conv)
  from later_events_silent [OF ev] tr sc show ?thesis
    by (simp add: registered_append warnings_append)
qed

text \<open>
  C9. In every run of \<open>analyze\<close> the outputs are registered with the reporter during
  the scan of the components, which comes before the reporter is added to the model
  and the system is initialized the second time; nothing after that registers an output.
\<close>

theorem registration_precedes_reporter:
  "\<exists>scan rest.
     fst (analyzeTrace rx T m statesTable controlsTable outputPaths dvt)
       = InitSystem # scan @ rest \<and>
     scan = fst (scanComponents rx T outputPaths (components m)) \<and>
     registered (fst (analyzeTrace rx T m statesTable controlsTable outputPaths dvt))
       = registered scan \<and>
     AddComponentReporter \<notin> set scan \<and> InitSystem \<notin> set scan \<and>
     registered rest = [] \<and>
     (rest = [] \<or>
      (\<exists>rest'. rest = AddComponentReporter # InitSystem # rest' \<and>
               AddComponentReporter \<notin> set rest' \<and> InitSystem \<notin> set rest')) \<and>
     ((rest = []) = (\<exists>e. snd (scanComponents rx T outputPaths (components m)) = Some e))"
proof -
  from analyzeTrace_cases [of rx T outputPaths m statesTable controlsTable dvt]
  obtain scan rest where
    sc: "scanComponents rx T outputPaths (components m)
           = (scan, snd (scanComponents rx T outputPaths (components m)))" and
    tr: "fst (analyzeTrace rx T m statesTable controlsTable outputPaths dvt)
           = InitSystem # scan @ rest" and
    ev: "\<forall>e \<in> set rest. sampleEvent e \<or> e = AddComponentReporter \<or> e = InitSystem" and
    shape: "rest = [] \<or> (\<exists>rest'. rest = AddComponentReporter # InitSystem # rest' \<and>
                       (\<forall>e \<in> set rest'. sampleEvent e))" and
    emp: "(rest = []) = (snd (scanComponents rx T outputPaths (components m)) \<noteq> None)"
    by blast
  from sc have scan: "scan = fst (scanComponents rx T outputPaths (components m))"
    by (metis fst_conv)
  have a: "AddComponentReporter \<notin> set scan \<and> InitSystem \<notin> set scan"
    using scanComponents_events [of rx T outputPaths "components m"] scan by auto
  have b: "registered rest = []" using later_events_silent [OF ev] by simp
  have c: "rest = [] \<or>
      (\<exists>rest'. rest = AddComponentReporter # InitSystem # rest' \<and>
               AddComponentReporter \<notin> set rest' \<and> InitSystem \<notin> set rest')"
    using shape by (auto dest: sampleEvent_reporter)
  have d: "(rest = []) = (\<exists>e. snd (scanComponents rx T outputPaths (components m)) = Some e)"
    using emp by auto
  have e: "registered (fst (analyzeTrace rx T m statesTable controlsTable outputPaths dvt))
             = registered scan"
    using tr b by (simp add: registered_append)
  from tr scan a b c d e show ?thesis by blast
qed

theorem registration_precedes_reporter_witness:
  "fst (analyzeTrace fragmentRegex ''double'' pendulum pendulumStates pendulumControls
          [''.*joint_angle'', ''.*axis''] pendulumDiscrete)
     = InitSystem #
       [LogDebug ''/jointset/pin|joint_angle'' ''double'',
        AddToReport ''/jointset/pin|joint_angle'',
        LogWarn ''/jointset/pin|axis'' ''Vec3''] @
       [AddComponentReporter, InitSystem,
        GetState 0, Prescribe 0, RealizeVelocity 0, SetControls 0 [3, 5],
        SetDiscreteVariableValue 0 ''/forceset/a'' ''fatigue'' 7, RealizeReport 0,
        GetState 1, Prescribe 1, RealizeVelocity 1, SetControls 1 [4, 6],
        SetDiscreteVariableValue 1 ''/forceset/a'' ''fatigue'' 8, RealizeReport 1] \<and>
   fst (scanComponents fragmentRegex ''double''
          [''.*joint_angle'', ''.*axis''] (components pendulum))
     = [LogDebug ''/jointset/pin|joint_angle'' ''double'',
        AddToReport ''/jointset/pin|joint_angle'',
        LogWarn ''/jointset/pin|axis'' ''Vec3'']"
  using registration_precedes_reporter [of fragmentRegex "''double''" pendulum pendulumStates
          pendulumControls "[''.*joint_angle'', ''.*axis'']"
          pendulumDiscrete]
  by (simp add: example_defs analyze_defs)

text \<open>
  C3. With patterns that are regular expressions, the scan raises no error; an output
  path is registered with the reporter exactly when an output of the model with that
  path has the template's value type and matches one of the patterns as a whole; a
  warning is logged exactly for the outputs that match a pattern and have another
  type, which are not registered; and the run goes on with the registered outputs.
\<close>

theorem output_registration:
  assumes "\<forall>outputPathArg \<in> set outputPaths. rx outputPathArg \<noteq> None"
  shows "snd (scanComponents rx T outputPaths (components m)) = None \<and>
         (\<forall>path. (AddToReport path \<in> set (fst (analyzeTrace rx T m statesTable controlsTable outputPaths dvt)))
            = (\<exists>c \<in> set (components m). \<exists>out \<in> set (componentOutputs c).
                 \<exists>outputPathArg \<in> set outputPaths.
                   path = getPathName c (fst out) \<and> snd out = T \<and>
                   regexMatches rx outputPathArg path)) \<and>
         (\<forall>path ty. (LogWarn path ty \<in> set (fst (analyzeTrace rx T m statesTable controlsTable outputPaths dvt)))
            = (\<exists>c \<in> set (components m). \<exists>out \<in> set (componentOutputs c).
                 \<exists>outputPathArg \<in> set outputPaths.
                   path = getPathName c (fst out) \<and> ty = snd out \<and> ty \<noteq> T \<and>
                   regexMatches rx outputPathArg path)) \<and>
         registered (fst (analyzeTrace rx T m statesTable controlsTable outputPaths dvt))
           = matchedOutputs rx T outputPaths (components m) \<and>
         warnings (fst (analyzeTrace rx T m statesTable controlsTable outputPaths dvt))
           = mismatchedOutputs rx T outputPaths (components m) \<and>
         analyze rx T m statesTable controlsTable outputPaths dvt
           = snd (analyzeFrom m statesTable controlsTable dvt
                    (matchedOutputs rx T outputPaths (components m)))"
proof -
  let ?tr = "fst (analyzeTrace rx T m statesTable controlsTable outputPaths dvt)"
  have none: "snd (scanComponents rx T outputPaths (components m)) = None"
    using assms by (rule scanComponents_compiles)
  from scanComponents_None [OF none] analyzeTrace_registered [of rx T m statesTable controlsTable outputPaths dvt]
  have reg: "registered ?tr = matchedOutputs rx T outputPaths (components m)"
    and warn: "warnings ?tr = mismatchedOutputs rx T outputPaths (components m)"
    by simp_all
  have a: "(AddToReport path \<in> set ?tr)
            = (\<exists>c \<in> set (components m). \<exists>out \<in> set (componentOutputs c).
                 \<exists>outputPathArg \<in> set outputPaths.
                   path = getPathName c (fst out) \<and> snd out = T \<and>
                   regexMatches rx outputPathArg path)" for path
    using reg registered_set [of path ?tr] matchedOutputs_set [of path rx T outputPaths "components m"]
    by simp
  have b: "(LogWarn path ty \<in> set ?tr)
            = (\<exists>c \<in> set (components m). \<exists>out \<in> set (componentOutputs c).
                 \<exists>outputPathArg \<in> set outputPaths.
                   path = getPathName c (fst out) \<and> ty = snd out \<and> ty \<noteq> T \<and>
                   regexMatches rx outputPathArg path)" for path ty
    using warn warnings_set [of path ty ?tr]
      mismatchedOutputs_set [of path ty rx T outputPaths "components m"]
    by simp
  obtain scan where sc: "scanComponents rx T outputPaths (components m) = (scan, None)"
    using none by (cases "scanComponents rx T outputPaths (components m)") auto
  from scanComponents_None [OF none] sc
  have "registered scan = matchedOutputs rx T outputPaths (components m)" by simp
  with sc have c: "analyze rx T m statesTable controlsTable outputPaths dvt
           = snd (analyzeFrom m statesTable controlsTable dvt
                    (matchedOutputs rx T outputPaths (components m)))"
    by (simp add: analyze_def analyzeTrace_def split: prod.splits)
  from none a b reg warn c show ?thesis by blast
qed

theorem output_registration_witness:
  "fragmentRegex ''.*joint_angle'' \<noteq> None \<and>
   fragmentRegex ''.*axis'' \<noteq> None \<and>
   fragmentRegex ''joint_angle'' \<noteq> None \<and>
   registered (fst (analyzeTrace fragmentRegex ''double'' pendulum pendulumStates pendulumControls
      [''.*joint_angle'', ''.*axis'', ''joint_angle''] noTable))
     = [''/jointset/pin|joint_angle''] \<and>
   warnings (fst (analyzeTrace fragmentRegex ''double'' pendulum pendulumStates pendulumControls
      [''.*joint_angle'', ''.*axis'', ''joint_angle''] noTable))
     = [(''/jointset/pin|axis'', ''Vec3'')] \<and>
   matchedOutputs fragmentRegex ''double''
      [''.*joint_angle'', ''.*axis'', ''joint_angle'']
      (components pendulum) = [''/jointset/pin|joint_angle''] \<and>
   analyze fragmentRegex ''double'' pendulum pendulumStates pendulumControls
      [''.*joint_angle'', ''.*axis'', ''joint_angle''] noTable
     = Inr \<lparr>columnLabels = [''/jointset/pin|joint_angle''],
            tableRows = [(0, [1]), (1, [2])]\<rparr>"
  using output_registration [of "[''.*joint_angle'', ''.*axis'', ''joint_angle'']"
          fragmentRegex "''double''" pendulum pendulumStates pendulumControls noTable]
  by (simp add: example_defs analyze_defs matchedOutputs_def regexMatches_def)


subsection \<open>The replay and the returned table\<close>

lemma analyzeTrace_InrD:
  assumes "analyzeTrace rx T m st ct ops dvt = (tr, Inr tbl)"
  shows "\<exists>scan cm refs rtr reportRows.
           scanComponents rx T ops (components m) = (scan, None) \<and>
           createSystemControlIndexMap m = Inr cm \<and>
           getNumRows st = getNumRows ct \<and>
           discreteSetup m st dvt = Inr refs \<and>
           replay m ct cm dvt refs (registered scan) 0 (createFromStatesTable m st)
             (replicate (getNumColumns ct) 0) [] = (rtr, Inr reportRows) \<and>
           tr = InitSystem # scan @ [AddComponentReporter, InitSystem] @ rtr \<and>
           tbl = \<lparr>columnLabels = registered scan, tableRows = reportRows\<rparr>"
  using assms
  by (auto simp: analyzeTrace_def analyzeFrom_def Let_def
           split: prod.splits option.splits sum.splits if_splits)

lemma createFromStatesTable_times:
  "map stateTime (createFromStatesTable m st) = map fst (tableRows st)"
  by (auto simp: createFromStatesTable_def)

text \<open>
  C4. A sample that \<open>analyze\<close> processes goes through its operations in this order:
  the state is taken from the trajectory, the prescribed motions are enforced on it,
  it is realized to the velocity stage, the controls vector built from the sample's row
  of the controls table is written into it, then for each column of the
  discrete-variables table, in column order, the value of the column at the sample is
  written into the variable of the owning component, and last the state is realized to
  the report stage, where the reporter appends exactly one row. The trace of a run that
  returns a table is the setup followed by one such sample trace for each row of the
  states table, in row order.
\<close>

theorem sample_operation_order:
  "(sampleStep m controlsTable controlMap dvt refs reported itime stateIn controls reportRows
      = (tr, Inr (controls', stateOut, reportRows')) \<longrightarrow>
      tr = sampleTrace itime controls' (discreteWrites dvt refs itime) \<and>
      (\<exists>dvs. tr = sampleTrace itime controls' dvs \<and> length dvs = getNumColumns dvt) \<and>
      (\<exists>controlsRow. getRowAtIndex controlsTable itime = Inr controlsRow \<and>
         setControlValues controlMap (columnLabels controlsTable) controlsRow 0 controls
           = Inr controls') \<and>
      (\<forall>idv < getNumColumns dvt.
         idv < length refs \<and>
         (\<exists>x. getDependentColumnAt dvt (columnLabels dvt ! idv) itime = Inr x)) \<and>
      stateDiscrete stateOut
        = rev (map (\<lambda>(c, n, v). ((c, n), v)) (discreteWrites dvt refs itime))
          @ stateDiscrete stateIn \<and>
      reportRows' = reportRows
         @ [(stateTime stateIn, map (\<lambda>p. outputValue m p stateOut) reported)] \<and>
      prescribed stateOut \<and> realizedStage stateOut = StageReport \<and>
      stateControls stateOut = controls' \<and> stateY stateOut = stateY stateIn) \<and>
   (analyzeTrace rx T m statesTable controlsTable outputPaths dvt = (atr, Inr tbl) \<longrightarrow>
      (\<exists>scan samples systemControlMap.
          createSystemControlIndexMap m = Inr systemControlMap \<and>
          atr = InitSystem # scan @ [AddComponentReporter, InitSystem] @ concat samples \<and>
          (\<forall>e \<in> set scan. \<not> sampleEvent e) \<and>
          length samples = getNumRows statesTable \<and>
          (\<forall>i < length samples. \<exists>v controlsRow prev.
             samples ! i = sampleTrace i v (discreteInjections dvt i) \<and>
             getRowAtIndex controlsTable i = Inr controlsRow \<and>
             length prev = getNumColumns controlsTable \<and>
             setControlValues systemControlMap (columnLabels controlsTable) controlsRow 0 prev
               = Inr v \<and>
             (\<forall>idv < getNumColumns dvt.
                \<exists>x. getDependentColumnAt dvt (columnLabels dvt ! idv) i = Inr x)) \<and>
          (\<forall>i < length samples. \<exists>v dvs. samples ! i = sampleTrace i v dvs \<and>
                                        length dvs = getNumColumns dvt) \<and>
          length (tableRows tbl) = length samples))"
proof (rule conjI; rule impI)
  assume st: "sampleStep m controlsTable controlMap dvt refs reported itime stateIn controls
                reportRows = (tr, Inr (controls', stateOut, reportRows'))"
  from sampleStep_Inr [OF st] sampleStep_writes [OF st]
  show "tr = sampleTrace itime controls' (discreteWrites dvt refs itime) \<and>
      (\<exists>dvs. tr = sampleTrace itime controls' dvs \<and> length dvs = getNumColumns dvt) \<and>
      (\<exists>controlsRow. getRowAtIndex controlsTable itime = Inr controlsRow \<and>
         setControlValues controlMap (columnLabels controlsTable) controlsRow 0 controls
           = Inr controls') \<and>
      (\<forall>idv < getNumColumns dvt.
         idv < length refs \<and>
         (\<exists>x. getDependentColumnAt dvt (columnLabels dvt ! idv) itime = Inr x)) \<and>
      stateDiscrete stateOut
        = rev (map (\<lambda>(c, n, v). ((c, n), v)) (discreteWrites dvt refs itime))
          @ stateDiscrete stateIn \<and>
      reportRows' = reportRows
         @ [(stateTime stateIn, map (\<lambda>p. outputValue m p stateOut) reported)] \<and>
      prescribed stateOut \<and> realizedStage stateOut = StageReport \<and>
      stateControls stateOut = controls' \<and> stateY stateOut = stateY stateIn"
    by blast
next
  assume "analyzeTrace rx T m statesTable controlsTable outputPaths dvt = (atr, Inr tbl)"
  from analyzeTrace_InrD [OF this] obtain scan cm refs rtr reportRows where
    sc: "scanComponents rx T outputPaths (components m) = (scan, None)" and
    cm: "createSystemControlIndexMap m = Inr cm" and
    ds: "discreteSetup m statesTable dvt = Inr refs" and
    rp: "replay m controlsTable cm dvt refs (registered scan) 0
           (createFromStatesTable m statesTable)
           (replicate (getNumColumns controlsTable) 0) [] = (rtr, Inr reportRows)" and
    atr: "atr = InitSystem # scan @ [AddComponentReporter, InitSystem] @ rtr" and
    tbl: "tbl = \<lparr>columnLabels = registered scan, tableRows = reportRows\<rparr>"
    by blast
  from replay_Inr [OF rp] have
    rows: "length reportRows = length (createFromStatesTable m statesTable)" by auto
  from replay_writes [OF rp] obtain samples where
    s: "rtr = concat samples"
       "length samples = length (createFromStatesTable m statesTable)"
       "\<forall>k < length samples. \<exists>v controlsRow prev.
            samples ! k = sampleTrace (0 + k) v (discreteWrites dvt refs (0 + k)) \<and>
            getRowAtIndex controlsTable (0 + k) = Inr controlsRow \<and>
            length prev = length (replicate (getNumColumns controlsTable) (0::real)) \<and>
            setControlValues cm (columnLabels controlsTable) controlsRow 0 prev = Inr v \<and>
            (\<forall>idv < getNumColumns dvt.
               idv < length refs \<and>
               (\<exists>x. getDependentColumnAt dvt (columnLabels dvt ! idv) (0 + k) = Inr x))"
    by blast
  have ev: "\<forall>e \<in> set scan. \<not> sampleEvent e"
    using scanComponents_events [of rx T outputPaths "components m"] sc by simp
  have each: "\<forall>i < length samples. \<exists>v controlsRow prev.
             samples ! i = sampleTrace i v (discreteInjections dvt i) \<and>
             getRowAtIndex controlsTable i = Inr controlsRow \<and>
             length prev = getNumColumns controlsTable \<and>
             setControlValues cm (columnLabels controlsTable) controlsRow 0 prev = Inr v \<and>
             (\<forall>idv < getNumColumns dvt.
                \<exists>x. getDependentColumnAt dvt (columnLabels dvt ! idv) i = Inr x)"
    using s(3) discreteSetup_writes [OF ds] by simp blast
  have old: "\<forall>i < length samples. \<exists>v dvs. samples ! i = sampleTrace i v dvs \<and>
                                        length dvs = getNumColumns dvt"
  proof (intro allI impI)
    fix i assume "i < length samples"
    with each obtain v where "samples ! i = sampleTrace i v (discreteInjections dvt i)"
      by blast
    moreover have "length (discreteInjections dvt i) = getNumColumns dvt"
      by (simp add: discreteInjections_def getNumColumns_def)
    ultimately show "\<exists>v dvs. samples ! i = sampleTrace i v dvs \<and>
                            length dvs = getNumColumns dvt" by blast
  qed
  have "createSystemControlIndexMap m = Inr cm \<and>
          atr = InitSystem # scan @ [AddComponentReporter, InitSystem] @ concat samples \<and>
          (\<forall>e \<in> set scan. \<not> sampleEvent e) \<and>
          length samples = getNumRows statesTable \<and>
          (\<forall>i < length samples. \<exists>v controlsRow prev.
             samples ! i = sampleTrace i v (discreteInjections dvt i) \<and>
             getRowAtIndex controlsTable i = Inr controlsRow \<and>
             length prev = getNumColumns controlsTable \<and>
             setControlValues cm (columnLabels controlsTable) controlsRow 0 prev = Inr v \<and>
             (\<forall>idv < getNumColumns dvt.
                \<exists>x. getDependentColumnAt dvt (columnLabels dvt ! idv) i = Inr x)) \<and>
          (\<forall>i < length samples. \<exists>v dvs. samples ! i = sampleTrace i v dvs \<and>
                                        length dvs = getNumColumns dvt) \<and>
          length (tableRows tbl) = length samples"
    using cm atr s(1,2) ev each old tbl rows by (simp add: createFromStatesTable_length)
  then show "\<exists>scan samples systemControlMap.
          createSystemControlIndexMap m = Inr systemControlMap \<and>
          atr = InitSystem # scan @ [AddComponentReporter, InitSystem] @ concat samples \<and>
          (\<forall>e \<in> set scan. \<not> sampleEvent e) \<and>
          length samples = getNumRows statesTable \<and>
          (\<forall>i < length samples. \<exists>v controlsRow prev.
             samples ! i = sampleTrace i v (discreteInjections dvt i) \<and>
             getRowAtIndex controlsTable i = Inr controlsRow \<and>
             length prev = getNumColumns controlsTable \<and>
             setControlValues systemControlMap (columnLabels controlsTable) controlsRow 0 prev
               = Inr v \<and>
             (\<forall>idv < getNumColumns dvt.
                \<exists>x. getDependentColumnAt dvt (columnLabels dvt ! idv) i = Inr x)) \<and>
          (\<forall>i < length samples. \<exists>v dvs. samples ! i = sampleTrace i v dvs \<and>
                                        length dvs = getNumColumns dvt) \<and>
          length (tableRows tbl) = length samples"
    by blast
qed

theorem sample_operation_order_witness:
  "sampleStep pendulum pendulumControls [''/forceset/a'' \<mapsto> 0, ''/forceset/b'' \<mapsto> 1]
       pendulumDiscrete
       [(''fatigue'', \<lparr>componentPath = ''/forceset/a'',
                       componentOutputs = [(''actuation'', ''double'')]\<rparr>)]
       [''/jointset/pin|joint_angle''] 0
       \<lparr>stateTime = 0, stateY = [(''/jointset/pin/q/value'', 1)], prescribed = False,
        realizedStage = StageInstance, stateControls = [], stateDiscrete = []\<rparr>
       [0, 0] []
     = (sampleTrace 0 [3, 5] [(''/forceset/a'', ''fatigue'', 7)],
        Inr ([3, 5],
             \<lparr>stateTime = 0, stateY = [(''/jointset/pin/q/value'', 1)], prescribed = True,
              realizedStage = StageReport, stateControls = [3, 5],
              stateDiscrete = [((''/forceset/a'', ''fatigue''), 7)]\<rparr>,
             [(0, [1])])) \<and>
   analyzeTrace fragmentRegex ''double'' pendulum pendulumStates pendulumControls
       [''.*joint_angle''] pendulumDiscrete
     = (InitSystem #
        [LogDebug ''/jointset/pin|joint_angle'' ''double'',
         AddToReport ''/jointset/pin|joint_angle''] @
        [AddComponentReporter, InitSystem] @
        concat [sampleTrace 0 [3, 5] [(''/forceset/a'', ''fatigue'', 7)],
                sampleTrace 1 [4, 6] [(''/forceset/a'', ''fatigue'', 8)]],
        Inr \<lparr>columnLabels = [''/jointset/pin|joint_angle''],
             tableRows = [(0, [1]), (1, [2])]\<rparr>) \<and>
   discreteInjections pendulumDiscrete 0 = [(''/forceset/a'', ''fatigue'', 7)] \<and>
   discreteInjections pendulumDiscrete 1 = [(''/forceset/a'', ''fatigue'', 8)] \<and>
   getNumRows pendulumStates = 2 \<and> getNumColumns pendulumDiscrete = 1"
  using sample_operation_order
    [where m = pendulum and controlsTable = pendulumControls
       and controlMap = "[''/forceset/a'' \<mapsto> 0, ''/forceset/b'' \<mapsto> 1]"
       and dvt = pendulumDiscrete
       and refs = "[(''fatigue'', \<lparr>componentPath = ''/forceset/a'',
                       componentOutputs = [(''actuation'', ''double'')]\<rparr>)]"
       and reported = "[''/jointset/pin|joint_angle'']"
       and itime = 0 and controls = "[0, 0]" and reportRows = "[]"
       and stateIn = "\<lparr>stateTime = 0, stateY = [(''/jointset/pin/q/value'', 1)],
              prescribed = False, realizedStage = StageInstance, stateControls = [],
              stateDiscrete = []\<rparr>"
       and tr = "sampleTrace 0 [3, 5] [(''/forceset/a'', ''fatigue'', 7)]"
       and controls' = "[3, 5]"
       and stateOut = "\<lparr>stateTime = 0, stateY = [(''/jointset/pin/q/value'', 1)],
              prescribed = True, realizedStage = StageReport, stateControls = [3, 5],
              stateDiscrete = [((''/forceset/a'', ''fatigue''), 7)]\<rparr>"
       and reportRows' = "[(0, [1])]"
       and rx = fragmentRegex and T = "''double''"
       and statesTable = pendulumStates and outputPaths = "[''.*joint_angle'']"
       and atr = "InitSystem #
        [LogDebug ''/jointset/pin|joint_angle'' ''double'',
         AddToReport ''/jointset/pin|joint_angle''] @
        [AddComponentReporter, InitSystem] @
        concat [sampleTrace 0 [3, 5] [(''/forceset/a'', ''fatigue'', 7)],
                sampleTrace 1 [4, 6] [(''/forceset/a'', ''fatigue'', 8)]]"
       and tbl = "\<lparr>columnLabels = [''/jointset/pin|joint_angle''],
             tableRows = [(0, [1]), (1, [2])]\<rparr>"]
  by (simp add: example_defs analyze_defs sampleTrace_def discreteInjections_def
        columnValue_def)

text \<open>
  C5. The table that \<open>analyze\<close> returns has one row for each row of the states table
  and of the controls table, with the times of the states table in order, and its
  columns are the outputs matched during the collection, in the order in which they
  were registered with the reporter; every row has one value for each column.
\<close>

theorem output_table_shape:
  assumes "analyze rx T m statesTable controlsTable outputPaths dvt = Inr tbl"
  shows "length (tableRows tbl) = getNumRows statesTable \<and>
         length (tableRows tbl) = getNumRows controlsTable \<and>
         map fst (tableRows tbl) = map fst (tableRows statesTable) \<and>
         columnLabels tbl = matchedOutputs rx T outputPaths (components m) \<and>
         columnLabels tbl
           = registered (fst (analyzeTrace rx T m statesTable controlsTable outputPaths dvt)) \<and>
         (\<forall>row \<in> set (tableRows tbl). length (snd row) = length (columnLabels tbl))"
proof -
  from analyze_InrD [OF assms] obtain scan cm refs rtr reportRows where
    sc: "scanComponents rx T outputPaths (components m) = (scan, None)" and
    eq: "getNumRows statesTable = getNumRows controlsTable" and
    rp: "replay m controlsTable cm dvt refs (registered scan) 0
           (createFromStatesTable m statesTable)
           (replicate (getNumColumns controlsTable) 0) [] = (rtr, Inr reportRows)" and
    tbl: "tbl = \<lparr>columnLabels = registered scan, tableRows = reportRows\<rparr>"
    by blast
  from replay_Inr [OF rp] have
    len: "length reportRows = length (createFromStatesTable m statesTable)" and
    times: "map fst reportRows = map stateTime (createFromStatesTable m statesTable)" and
    width: "\<forall>row \<in> set reportRows. length (snd row) = length (registered scan)"
    by auto
  from sc have none: "snd (scanComponents rx T outputPaths (components m)) = None" by simp
  from scanComponents_None [OF none] sc
  have cols: "registered scan = matchedOutputs rx T outputPaths (components m)" by simp
  from analyzeTrace_registered [of rx T m statesTable controlsTable outputPaths dvt] sc
  have reg: "registered (fst (analyzeTrace rx T m statesTable controlsTable outputPaths dvt))
               = registered scan" by simp
  from tbl len times width eq cols reg show ?thesis
    by (simp add: createFromStatesTable_length createFromStatesTable_times)
qed

theorem output_table_shape_witness:
  "analyze fragmentRegex ''double'' pendulum pendulumStates pendulumControls
       [''.*joint_angle'', ''.*axis''] pendulumDiscrete
     = Inr \<lparr>columnLabels = [''/jointset/pin|joint_angle''],
            tableRows = [(0, [1]), (1, [2])]\<rparr> \<and>
   getNumRows pendulumStates = 2 \<and> getNumRows pendulumControls = 2 \<and>
   map fst (tableRows pendulumStates) = [0, 1] \<and>
   matchedOutputs fragmentRegex ''double'' [''.*joint_angle'', ''.*axis'']
       (components pendulum) = [''/jointset/pin|joint_angle'']"
  using output_table_shape [of fragmentRegex "''double''" pendulum pendulumStates pendulumControls
          "[''.*joint_angle'', ''.*axis'']" pendulumDiscrete
          "\<lparr>columnLabels = [''/jointset/pin|joint_angle''],
            tableRows = [(0, [1]), (1, [2])]\<rparr>"]
  by (simp add: example_defs analyze_defs matchedOutputs_def regexMatches_def)

text \<open>
  C2, as amended. When the states table and the controls table have different row
  counts, or a discrete-variables table with columns has a row count different from the
  states table's, \<open>analyze\<close> returns no table; the error is the row-count mismatch
  whenever the steps before the check have succeeded, that is, the patterns compiled
  and the control index map was built, and it is the error of the earlier step
  otherwise: the pattern's when a pattern does not compile, the control index map's
  when the map is not built.
\<close>

theorem row_count_mismatch_rejected:
  assumes "getNumRows statesTable \<noteq> getNumRows controlsTable \<or>
           (getNumColumns dvt \<noteq> 0 \<and> getNumRows dvt \<noteq> getNumRows statesTable)"
  shows "(\<exists>e. analyze rx T m statesTable controlsTable outputPaths dvt = Inl e) \<and>
         (snd (scanComponents rx T outputPaths (components m)) = None \<and>
          (\<exists>controlMap. createSystemControlIndexMap m = Inr controlMap) \<longrightarrow>
            analyze rx T m statesTable controlsTable outputPaths dvt
              = Inl (if getNumRows statesTable \<noteq> getNumRows controlsTable
                     then StatesControlsRowCountMismatch (getNumRows statesTable)
                            (getNumRows controlsTable)
                     else DiscreteRowCountMismatch (getNumRows dvt) (getNumRows statesTable))) \<and>
         (\<forall>e. snd (scanComponents rx T outputPaths (components m)) = Some e \<longrightarrow>
            analyze rx T m statesTable controlsTable outputPaths dvt = Inl e) \<and>
         (\<forall>e. snd (scanComponents rx T outputPaths (components m)) = None \<and>
              createSystemControlIndexMap m = Inl e \<longrightarrow>
            analyze rx T m statesTable controlsTable outputPaths dvt = Inl e)"
proof (intro conjI allI)
  show "\<exists>e. analyze rx T m statesTable controlsTable outputPaths dvt = Inl e"
  proof (cases "analyze rx T m statesTable controlsTable outputPaths dvt")
    case (Inl e)
    then show ?thesis by simp
  next
    case (Inr tbl)
    from analyze_InrD [OF Inr] assms show ?thesis
      by (auto simp: discreteSetup_def split: if_splits)
  qed
next
  show "snd (scanComponents rx T outputPaths (components m)) = None \<and>
          (\<exists>controlMap. createSystemControlIndexMap m = Inr controlMap) \<longrightarrow>
            analyze rx T m statesTable controlsTable outputPaths dvt
              = Inl (if getNumRows statesTable \<noteq> getNumRows controlsTable
                     then StatesControlsRowCountMismatch (getNumRows statesTable)
                            (getNumRows controlsTable)
                     else DiscreteRowCountMismatch (getNumRows dvt) (getNumRows statesTable))"
  proof
    assume a: "snd (scanComponents rx T outputPaths (components m)) = None \<and>
          (\<exists>controlMap. createSystemControlIndexMap m = Inr controlMap)"
    then obtain scan cm where
      sc: "scanComponents rx T outputPaths (components m) = (scan, None)" and
      cm: "createSystemControlIndexMap m = Inr cm"
      by (cases "scanComponents rx T outputPaths (components m)") auto
    show "analyze rx T m statesTable controlsTable outputPaths dvt
              = Inl (if getNumRows statesTable \<noteq> getNumRows controlsTable
                     then StatesControlsRowCountMismatch (getNumRows statesTable)
                            (getNumRows controlsTable)
                     else DiscreteRowCountMismatch (getNumRows dvt) (getNumRows statesTable))"
      using sc cm assms
      by (auto simp: analyze_def analyzeTrace_def analyzeFrom_def discreteSetup_def)
  qed
next
  fix e
  show "snd (scanComponents rx T outputPaths (components m)) = Some e \<longrightarrow>
          analyze rx T m statesTable controlsTable outputPaths dvt = Inl e"
    by (cases "scanComponents rx T outputPaths (components m)")
       (simp add: analyze_def analyzeTrace_def)
next
  fix e
  show "snd (scanComponents rx T outputPaths (components m)) = None \<and>
          createSystemControlIndexMap m = Inl e \<longrightarrow>
        analyze rx T m statesTable controlsTable outputPaths dvt = Inl e"
    by (cases "scanComponents rx T outputPaths (components m)")
       (simp add: analyze_def analyzeTrace_def analyzeFrom_def)
qed

theorem row_count_mismatch_rejected_witness:
  "getNumRows pendulumStates \<noteq> getNumRows pendulumControlsShort \<and>
   analyze fragmentRegex ''double'' pendulum pendulumStates pendulumControlsShort
       [''.*joint_angle''] noTable
     = Inl (StatesControlsRowCountMismatch 2 1) \<and>
   getNumRows pendulumStates = getNumRows pendulumControls \<and>
   getNumColumns pendulumDiscreteShort \<noteq> 0 \<and>
   getNumRows pendulumDiscreteShort \<noteq> getNumRows pendulumStates \<and>
   analyze fragmentRegex ''double'' pendulum pendulumStates pendulumControls
       [''.*joint_angle''] pendulumDiscreteShort
     = Inl (DiscreteRowCountMismatch 1 2) \<and>
   snd (scanComponents fragmentRegex ''double'' [''.*joint_angle'']
          (components pendulum)) = None \<and>
   createSystemControlIndexMap pendulum
     = Inr [''/forceset/a'' \<mapsto> 0, ''/forceset/b'' \<mapsto> 1] \<and>
   snd (scanComponents fragmentRegex ''double'' [''(''] (components pendulum))
     = Some (RegexError ''('') \<and>
   analyze fragmentRegex ''double'' pendulum pendulumStates pendulumControlsShort
       [''(''] noTable = Inl (RegexError ''('') \<and>
   createSystemControlIndexMap pendulumReordered = Inl ActuatorOrderError \<and>
   analyze fragmentRegex ''double'' pendulumReordered pendulumStates pendulumControls
       [''.*joint_angle''] pendulumDiscreteShort = Inl ActuatorOrderError"
  using row_count_mismatch_rejected [of pendulumStates pendulumControlsShort noTable
          fragmentRegex "''double''" pendulum "[''.*joint_angle'']"]
    row_count_mismatch_rejected [of pendulumStates pendulumControls pendulumDiscreteShort
          fragmentRegex "''double''" pendulum "[''.*joint_angle'']"]
    row_count_mismatch_rejected [of pendulumStates pendulumControlsShort noTable
          fragmentRegex "''double''" pendulum "[''('']"]
    row_count_mismatch_rejected [of pendulumStates pendulumControls pendulumDiscreteShort
          fragmentRegex "''double''" pendulumReordered "[''.*joint_angle'']"]
  by (simp add: example_defs analyze_defs)

text \<open>
  C2, as stated, fails: a model whose actuators are not in the order of the controls,
  with a states table of two rows and a controls table of one row, is rejected by
  \<open>createSystemControlIndexMap\<close>, which \<open>analyze\<close> calls before it compares the row
  counts; the error is the internal error, not a row-count mismatch.
\<close>

theorem row_count_error_preempted:
  "getNumRows pendulumStates \<noteq> getNumRows pendulumControlsShort \<and>
   analyze fragmentRegex ''double'' pendulumReordered pendulumStates pendulumControlsShort
       [''.*joint_angle''] noTable = Inl ActuatorOrderError"
  by (simp add: example_defs analyze_defs)

end
